theory Spec2Isabelle
  imports Complex_Main "HOL-Library.Log_Nat"
begin

section \<open>Python values used by \<open>server.py\<close>\<close>

text \<open>
  The program is one Python module, \<open>server.py\<close>. Its tools shell out to git through
  \<open>_run_cmd\<close>, read a JaCoCo XML report with \<open>xml.etree.ElementTree\<close> and write JUnit
  skeletons with \<open>pathlib\<close>. Strings are modelled as \<open>string\<close> (ASCII text: a
  \<open>char\<close> is one byte, so code points beyond ASCII are outside the model), Python's
  unbounded \<open>int\<close> as \<open>int\<close>, a \<open>float\<close> as \<open>pyfloat\<close> below, and every exception
  the code can meet as a value of \<open>py_exn\<close>.
\<close>

datatype py_exn =
    TypeError                 \<comment> \<open>\<open>int(None)\<close>\<close>
  | ValueError string         \<comment> \<open>\<open>int(s)\<close> for a string that is no integer literal\<close>
  | OverflowError             \<comment> \<open>\<open>a / b\<close> on ints whose quotient is too large for a float\<close>
  | ZeroDivisionError
  | UnboundLocalError string  \<comment> \<open>a local variable read before any assignment\<close>
  | ParseError string         \<comment> \<open>raised by \<open>ET.parse\<close> on a document that does not decode\<close>
  | UnicodeDecodeError
  | FileExistsError
  | FileNotFoundError
  | NotADirectoryError
  | IsADirectoryError
  | OSError string

subsection \<open>Strings\<close>

text \<open>\<open>str.isspace\<close> on ASCII: tab, the line breaks, the separators 0x1C..0x1F, space.\<close>

definition isspace :: "char \<Rightarrow> bool" where
  "isspace c = (let n = (of_char c :: nat) in (9 \<le> n \<and> n \<le> 13) \<or> (28 \<le> n \<and> n \<le> 32))"

text \<open>\<open>s.strip()\<close>.\<close>

definition strip :: "string \<Rightarrow> string" where
  "strip s = rev (dropWhile isspace (rev (dropWhile isspace s)))"

text \<open>
  \<open>s.splitlines()\<close>: a line ends at LF, VT, FF, CR, CR LF, FS, GS or RS; the breaks are
  dropped and no empty last line is produced.
\<close>

definition is_linebreak :: "char \<Rightarrow> bool" where
  "is_linebreak c = (let n = (of_char c :: nat) in (10 \<le> n \<and> n \<le> 13) \<or> (28 \<le> n \<and> n \<le> 30))"

fun splitlines_from :: "string \<Rightarrow> string \<Rightarrow> string list" where
  "splitlines_from [] cur = (if cur = [] then [] else [rev cur])"
| "splitlines_from (c # cs) cur =
     (if c = CHR 0x0D then
        (case cs of
           [] \<Rightarrow> [rev cur]
         | d # ds \<Rightarrow> if d = CHR 0x0A then rev cur # splitlines_from ds []
                    else rev cur # splitlines_from (d # ds) [])
      else if is_linebreak c then rev cur # splitlines_from cs []
      else splitlines_from cs (c # cur))"

definition splitlines :: "string \<Rightarrow> string list" where
  "splitlines s = splitlines_from s []"

text \<open>\<open>[l for l in (out or "").splitlines() if l.strip()]\<close>, for \<open>out = res.get("stdout", "")\<close>.\<close>

definition nonblank_lines :: "string option \<Rightarrow> string list" where
  "nonblank_lines out =
     filter (\<lambda>l. strip l \<noteq> []) (splitlines (case out of None \<Rightarrow> [] | Some s \<Rightarrow> s))"

text \<open>\<open>str(n)\<close> for an int, in decimal.\<close>

definition digit_char :: "nat \<Rightarrow> char" where
  "digit_char d = char_of (48 + d)"

fun str_nat :: "nat \<Rightarrow> string" where
  "str_nat n = (if n < 10 then [digit_char n] else str_nat (n div 10) @ [digit_char (n mod 10)])"

declare str_nat.simps [simp del]

definition str_int :: "int \<Rightarrow> string" where
  "str_int i = (if i < 0 then CHR ''-'' # str_nat (nat (- i)) else str_nat (nat i))"

text \<open>
  \<open>int(s)\<close> for a string: surrounding whitespace is ignored, then an optional sign, then
  decimal digits, where single underscores may stand between digits. \<open>None\<close> is the
  \<open>ValueError\<close>.
\<close>

definition is_digit :: "char \<Rightarrow> bool" where
  "is_digit c = (let n = (of_char c :: nat) in 48 \<le> n \<and> n \<le> 57)"

definition digit_val :: "char \<Rightarrow> nat" where
  "digit_val c = of_char c - 48"

fun digits_from :: "string \<Rightarrow> nat \<Rightarrow> nat option" where
  "digits_from [] n = Some n"
| "digits_from (c # cs) n =
     (if is_digit c then digits_from cs (10 * n + digit_val c)
      else if c = CHR ''_'' then
        (case cs of
           [] \<Rightarrow> None
         | d # ds \<Rightarrow> if is_digit d then digits_from ds (10 * n + digit_val d) else None)
      else None)"

definition digits_value :: "string \<Rightarrow> nat option" where
  "digits_value s =
     (case s of [] \<Rightarrow> None | c # cs \<Rightarrow> if is_digit c then digits_from cs (digit_val c) else None)"

definition py_int :: "string \<Rightarrow> int option" where
  "py_int s =
     (case strip s of
        [] \<Rightarrow> None
      | c # cs \<Rightarrow>
          if c = CHR ''-'' then map_option (\<lambda>n. - int n) (digits_value cs)
          else if c = CHR ''+'' then map_option int (digits_value cs)
          else map_option int (digits_value (c # cs)))"

text \<open>\<open>int(x)\<close> where \<open>x = elem.get(key)\<close> is \<open>None\<close> for a missing attribute.\<close>

definition int_of_attr :: "string option \<Rightarrow> py_exn + int" where
  "int_of_attr v =
     (case v of
        None \<Rightarrow> Inl TypeError
      | Some s \<Rightarrow> (case py_int s of None \<Rightarrow> Inl (ValueError s) | Some i \<Rightarrow> Inr i))"

text \<open>An f-string field holding \<open>elem.get(key)\<close>: the text, or \<open>None\<close> printed as such.\<close>

definition str_of_attr :: "string option \<Rightarrow> string" where
  "str_of_attr v = (case v of None \<Rightarrow> ''None'' | Some s \<Rightarrow> s)"

subsection \<open>Floats\<close>

text \<open>
  A Python \<open>float\<close> is an IEEE 754 binary64 number: a finite value is a rational
  (\<open>Fin 0\<close> is \<open>0.0\<close>, \<open>NegZero\<close> is \<open>-0.0\<close>). Arithmetic rounds the exact result to the
  nearest representable value, ties to the even significand: 53 bits of precision, the
  smallest quantum \<open>2^-1074\<close>, overflow from \<open>2^1024\<close> on.
\<close>

datatype pyfloat = Fin rat | NegZero | PosInf | NegInf | NaN

definition pow2 :: "int \<Rightarrow> rat" where
  "pow2 k = (if 0 \<le> k then 2 ^ nat k else 1 / 2 ^ nat (- k))"

definition round_half_even :: "rat \<Rightarrow> int" where
  "round_half_even x =
     (let f = \<lfloor>x\<rfloor>; r = x - of_int f in
      if r < 1 / 2 then f else if 1 / 2 < r then f + 1 else if even f then f else f + 1)"

text \<open>The binary exponent of a positive rational: \<open>2^e \<le> q < 2^(e+1)\<close>.\<close>

definition ilog2 :: "rat \<Rightarrow> int" where
  "ilog2 q = (if 1 \<le> q then bitlen \<lfloor>q\<rfloor> - 1 else - bitlen (\<lceil>1 / q\<rceil> - 1))"

text \<open>Rounding a magnitude \<open>q \<ge> 0\<close> to binary64; \<open>None\<close> when the result overflows.\<close>

definition round64 :: "rat \<Rightarrow> rat option" where
  "round64 q =
     (if q = 0 then Some 0
      else
        let e = ilog2 q;
            qe = max (e - 52) (- 1074);
            r = of_int (round_half_even (q / pow2 qe)) * pow2 qe
        in if pow2 1024 \<le> r then None else Some r)"

definition signed :: "bool \<Rightarrow> rat \<Rightarrow> pyfloat" where
  "signed neg r = (if r = 0 then (if neg then NegZero else Fin 0) else Fin (if neg then - r else r))"

text \<open>
  \<open>a / b\<close> on two ints (true division): the correctly rounded quotient, \<open>OverflowError\<close>
  when it is too large for a float, a signed zero when it underflows.
\<close>

definition int_truediv :: "int \<Rightarrow> int \<Rightarrow> py_exn + pyfloat" where
  "int_truediv a b =
     (if b = 0 then Inl ZeroDivisionError
      else
        (case round64 (\<bar>of_int a\<bar> / \<bar>of_int b\<bar>) of
           None \<Rightarrow> Inl OverflowError
         | Some r \<Rightarrow> Inr (signed ((a < 0) \<noteq> (b < 0)) r)))"

fun float_val :: "pyfloat \<Rightarrow> rat" where
  "float_val (Fin q) = q"
| "float_val _ = 0"

fun is_neg :: "pyfloat \<Rightarrow> bool" where
  "is_neg (Fin q) = (q < 0)"
| "is_neg NegZero = True"
| "is_neg NegInf = True"
| "is_neg _ = False"

definition is_inf :: "pyfloat \<Rightarrow> bool" where
  "is_inf x = (x = PosInf \<or> x = NegInf)"

definition is_zero :: "pyfloat \<Rightarrow> bool" where
  "is_zero x = (x = Fin 0 \<or> x = NegZero)"

text \<open>\<open>x * y\<close> on floats: never raises; overflow gives an infinity.\<close>

definition float_mul :: "pyfloat \<Rightarrow> pyfloat \<Rightarrow> pyfloat" where
  "float_mul x y =
     (if x = NaN \<or> y = NaN then NaN
      else if is_inf x \<or> is_inf y then
        (if is_zero x \<or> is_zero y then NaN
         else if is_neg x \<noteq> is_neg y then NegInf else PosInf)
      else
        (case round64 (\<bar>float_val x\<bar> * \<bar>float_val y\<bar>) of
           None \<Rightarrow> (if is_neg x \<noteq> is_neg y then NegInf else PosInf)
         | Some r \<Rightarrow> signed (is_neg x \<noteq> is_neg y) r))"

text \<open>\<open>x < y\<close> on floats: false whenever one side is NaN; \<open>-0.0\<close> equals \<open>0.0\<close>.\<close>

fun float_lt :: "pyfloat \<Rightarrow> pyfloat \<Rightarrow> bool" where
  "float_lt NaN _ = False"
| "float_lt _ NaN = False"
| "float_lt PosInf _ = False"
| "float_lt _ PosInf = True"
| "float_lt _ NegInf = False"
| "float_lt NegInf _ = True"
| "float_lt x y = (float_val x < float_val y)"

text \<open>
  \<open>f"{x:.2f}"\<close>: the exact value rounded to two decimals, ties to even, with the sign of
  the float (so \<open>-0.001\<close> prints as \<open>-0.00\<close>).
\<close>

definition format_2f :: "pyfloat \<Rightarrow> string" where
  "format_2f x =
     (case x of
        NaN \<Rightarrow> ''nan''
      | PosInf \<Rightarrow> ''inf''
      | NegInf \<Rightarrow> ''-inf''
      | NegZero \<Rightarrow> ''-0.00''
      | Fin q \<Rightarrow>
          (let cents = nat (round_half_even (\<bar>q\<bar> * 100)) in
           (if q < 0 then ''-'' else '''') @ str_nat (cents div 100) @ ''.''
             @ [digit_char (cents mod 100 div 10), digit_char (cents mod 10)]))"

section \<open>The coverage report\<close>

text \<open>
  An \<open>xml.etree.ElementTree\<close> element: tag, attributes, children in document order.
  \<open>e.get(k)\<close> is \<open>None\<close> for a missing attribute.
\<close>

datatype xml = Element (tag: string) (attrib: "(string \<times> string) list") (children: "xml list")

definition get_attr :: "xml \<Rightarrow> string \<Rightarrow> string option" where
  "get_attr e k = map_of (attrib e) k"

text \<open>All elements below \<open>e\<close>, in document order (\<open>e\<close> itself is not one of them).\<close>

fun descendants :: "xml \<Rightarrow> xml list" where
  "descendants (Element t a cs) = concat (map (\<lambda>c. c # descendants c) cs)"

text \<open>\<open>e.findall('.//name')\<close> and \<open>e.findall('name')\<close>.\<close>

definition findall_below :: "xml \<Rightarrow> string \<Rightarrow> xml list" where
  "findall_below e name = filter (\<lambda>x. tag x = name) (descendants e)"

definition findall_child :: "xml \<Rightarrow> string \<Rightarrow> xml list" where
  "findall_child e name = filter (\<lambda>x. tag x = name) (children e)"

definition is_line_counter :: "xml \<Rightarrow> bool" where
  "is_line_counter counter = (get_attr counter ''type'' = Some ''LINE'')"

text \<open>
  The result of \<open>_compute_jacoco_coverage\<close>: \<open>{"ok": False, "msg": m}\<close> or
  \<open>{"ok": True, "percent": p, "covered": c, "missed": m}\<close>.
\<close>

datatype aggregate = AggFail string | AggOk pyfloat int int

section \<open>The world outside the module\<close>

text \<open>
  \<open>_run_cmd\<close> is called by every git tool but is not defined in \<open>server.py\<close>; it is
  taken as a parameter, with the interface its callers use: it gets the argument vector
  and the working directory and returns a dict read with \<open>.get("returncode")\<close>,
  \<open>.get("stdout")\<close> and \<open>.get("stderr")\<close> (\<open>None\<close> where a key is missing or holds
  \<open>None\<close>). Running a command changes the world \<open>'w\<close> (the repository and the file
  system), about which nothing is assumed.

  The library calls whose results depend on the machine are parameters as well:
  \<open>os.path.abspath\<close>, \<open>fnmatch.fnmatch\<close>, the \<open>pathlib\<close> operations (a \<open>Path\<close> is
  represented by its text), \<open>ET.parse(p).getroot()\<close>, \<open>str(e)\<close> of an exception and the
  \<open>repr\<close> of a float.
\<close>

record cmd_result =
  returncode :: "int option"
  stdout :: "string option"
  stderr :: "string option"

record 'w sys =
  run_cmd :: "string list \<Rightarrow> string \<Rightarrow> 'w \<Rightarrow> cmd_result \<times> 'w"
  abspath :: "string \<Rightarrow> string"
  fnmatch :: "string \<Rightarrow> string \<Rightarrow> bool"
  path_of :: "string \<Rightarrow> string"
  path_div :: "string \<Rightarrow> string \<Rightarrow> string"
  path_exists :: "'w \<Rightarrow> string \<Rightarrow> bool"
  rglob :: "'w \<Rightarrow> string \<Rightarrow> string \<Rightarrow> string list"
  et_parse :: "'w \<Rightarrow> string \<Rightarrow> py_exn + xml"
  exc_str :: "py_exn \<Rightarrow> string"
  float_repr :: "pyfloat \<Rightarrow> string"

text \<open>
  The same system, observed: every command that is run is appended to a log kept beside
  the world. The tools are run on the observed system to say which commands they invoke.
\<close>

definition logged :: "'w sys \<Rightarrow> ('w \<times> string list list) sys" where
  "logged sys =
     \<lparr> run_cmd = (\<lambda>argv cwd wl.
         (fst (run_cmd sys argv cwd (fst wl)), (snd (run_cmd sys argv cwd (fst wl)), snd wl @ [argv]))),
       abspath = abspath sys,
       fnmatch = fnmatch sys,
       path_of = path_of sys,
       path_div = path_div sys,
       path_exists = (\<lambda>wl. path_exists sys (fst wl)),
       rglob = (\<lambda>wl. rglob sys (fst wl)),
       et_parse = (\<lambda>wl. et_parse sys (fst wl)),
       exc_str = exc_str sys,
       float_repr = float_repr sys \<rparr>"

text \<open>\<open>os.path.join(a, b)\<close> (POSIX).\<close>

definition os_path_join :: "string \<Rightarrow> string \<Rightarrow> string" where
  "os_path_join a b =
     (if b \<noteq> [] \<and> hd b = CHR ''/'' then b
      else if a = [] \<or> last a = CHR ''/'' then a @ b
      else a @ ''/'' @ b)"

section \<open>Coverage Aggregator: \<open>_compute_jacoco_coverage\<close>\<close>

text \<open>
  The loop over \<open>root.findall('.//counter')\<close>, with the two running totals; an \<open>int()\<close>
  that raises ends it.
\<close>

fun sum_line_counters :: "xml list \<Rightarrow> int \<Rightarrow> int \<Rightarrow> py_exn + (int \<times> int)" where
  "sum_line_counters [] total_missed total_covered = Inr (total_missed, total_covered)"
| "sum_line_counters (counter # rest) total_missed total_covered =
     (if get_attr counter ''type'' = Some ''LINE'' then
        (case int_of_attr (get_attr counter ''missed'') of
           Inl e \<Rightarrow> Inl e
         | Inr m \<Rightarrow>
             (case int_of_attr (get_attr counter ''covered'') of
                Inl e \<Rightarrow> Inl e
              | Inr c \<Rightarrow> sum_line_counters rest (total_missed + m) (total_covered + c)))
      else sum_line_counters rest total_missed total_covered)"

text \<open>The body of the \<open>try\<close>, from the parsed root on.\<close>

definition coverage_of_root :: "xml \<Rightarrow> py_exn + aggregate" where
  "coverage_of_root rt =
     (case sum_line_counters (findall_below rt ''counter'') 0 0 of
        Inl e \<Rightarrow> Inl e
      | Inr (total_missed, total_covered) \<Rightarrow>
          (let total = total_missed + total_covered in
           if total > 0 then
             (case int_truediv total_covered total of
                Inl e \<Rightarrow> Inl e
              | Inr q \<Rightarrow> Inr (AggOk (float_mul q (Fin 100)) total_covered total_missed))
           else Inr (AggOk (Fin 0) total_covered total_missed)))"

definition compute_jacoco_coverage :: "'w sys \<Rightarrow> 'w \<Rightarrow> string \<Rightarrow> aggregate" where
  "compute_jacoco_coverage sys w jacoco_xml_path =
     (let p = path_of sys jacoco_xml_path in
      if \<not> path_exists sys w p then AggFail (''File not found: '' @ jacoco_xml_path)
      else
        (case et_parse sys w p of
           Inl e \<Rightarrow> AggFail (exc_str sys e)
         | Inr rt \<Rightarrow>
             (case coverage_of_root rt of
                Inl e \<Rightarrow> AggFail (exc_str sys e)
              | Inr cov \<Rightarrow> cov)))"

section \<open>Commit Gate: \<open>git_commit\<close>\<close>

text \<open>
  What \<open>git_commit\<close> returns: \<open>Refused msg coverage\<close> is \<open>{"ok": False, "msg": msg}\<close>,
  with \<open>"coverage": cov\<close> when \<open>coverage\<close> is \<open>Some cov\<close>; \<open>Ran ok out err coverage\<close> is
  \<open>{"ok": ok, "stdout": out, "stderr": err, "coverage": coverage}\<close>, returned after the
  commit command has run. An uncaught exception is \<open>Inl\<close>.
\<close>

datatype commit_result =
    Refused string "aggregate option"
  | Ran bool "string option" "string option" "aggregate option"

text \<open>
  In the branch where the aggregation failed, the source assigns the "coverage unknown"
  message and then a second f-string that reads \<open>percent\<close>, a local variable assigned
  only in the other branch: reading it raises \<open>UnboundLocalError\<close>.
\<close>

definition git_commit ::
  "'w sys \<Rightarrow> string \<Rightarrow> string \<Rightarrow> bool \<Rightarrow> string option \<Rightarrow> pyfloat option \<Rightarrow> 'w
     \<Rightarrow> (py_exn + commit_result) \<times> 'w" where
  "git_commit sys message repo_dir include_coverage jacoco_xml coverage_threshold w0 =
     (let repo = abspath sys repo_dir;
          staged_run = run_cmd sys [''git'', ''diff'', ''--name-only'', ''--cached''] repo w0;
          staged = nonblank_lines (stdout (fst staged_run));
          w1 = snd staged_run
      in
      if staged = [] then (Inr (Refused ''No staged changes to commit.'' None), w1)
      else
        (case
           (if include_coverage \<and> jacoco_xml \<noteq> None \<and> jacoco_xml \<noteq> Some [] then
              (case compute_jacoco_coverage sys w1 (the jacoco_xml) of
                 AggOk percent covered missed \<Rightarrow>
                   (let final_message =
                          message @ '' | Coverage: '' @ format_2f percent @ ''% (''
                            @ str_int covered @ ''/'' @ str_int (covered + missed) @ '')''
                    in
                    if (case coverage_threshold of None \<Rightarrow> False | Some t \<Rightarrow> float_lt percent t)
                    then
                      Inl (Inr (Refused
                        (''Coverage '' @ format_2f percent @ ''% below threshold ''
                           @ float_repr sys (the coverage_threshold) @ ''% - aborting commit.'')
                        (Some (AggOk percent covered missed))))
                    else Inr (final_message, Some (AggOk percent covered missed)))
               | AggFail msg \<Rightarrow>
                   (let final_message = message @ '' | Coverage: unknown ('' @ msg @ '')'' in
                    Inl (Inl (UnboundLocalError ''percent''))))
            else Inr (message, None))
         of
           Inl outcome \<Rightarrow> (outcome, w1)
         | Inr (std_msg, coverage_info) \<Rightarrow>
             (let commit_run = run_cmd sys [''git'', ''commit'', ''-m'', std_msg] repo w1;
                  commit_res = fst commit_run
              in (Inr (Ran (returncode commit_res = Some 0) (stdout commit_res) (stderr commit_res)
                         coverage_info),
                  snd commit_run))))"

section \<open>Staging Filter: \<open>git_add_all\<close>\<close>

definition default_exclude_patterns :: "string list" where
  "default_exclude_patterns =
     [''target/**'', ''**/target/**'', ''**/*.class'', ''**/*.jar'', ''*.log'', ''**/.idea/**'',
      ''**/.vscode/**'', ''**/*.pyc'', ''node_modules/**'']"

text \<open>The inner loop over the patterns: does one of them match either form of the path?\<close>

definition skip_path :: "'w sys \<Rightarrow> string \<Rightarrow> string list \<Rightarrow> string \<Rightarrow> bool" where
  "skip_path sys repo exclude_patterns path =
     list_ex (\<lambda>pat. fnmatch sys path pat \<or> fnmatch sys (os_path_join repo path) pat)
       exclude_patterns"

text \<open>
  \<open>Nothing_to_stage\<close> is \<open>{"ok": True, "staged": [], "msg": "No files to stage after
  filtering."}\<close>; \<open>Staged ok staged out err\<close> is \<open>{"ok": ok, "staged": staged,
  "add_stdout": out, "add_stderr": err}\<close>.
\<close>

datatype add_result =
    Nothing_to_stage
  | Staged bool "string list" "string option" "string option"

definition git_add_all ::
  "'w sys \<Rightarrow> string \<Rightarrow> string list option \<Rightarrow> 'w \<Rightarrow> add_result \<times> 'w" where
  "git_add_all sys repo_dir exclude_patterns_arg w0 =
     (let repo = abspath sys repo_dir;
          exclude_patterns =
            (case exclude_patterns_arg of None \<Rightarrow> default_exclude_patterns | Some ps \<Rightarrow> ps);
          st_run = run_cmd sys [''git'', ''status'', ''--porcelain''] repo w0;
          files = filter (\<lambda>path. \<not> skip_path sys repo exclude_patterns path)
                    (map (drop 3) (nonblank_lines (stdout (fst st_run))));
          w1 = snd st_run
      in
      if files = [] then (Nothing_to_stage, w1)
      else
        (let add_run = run_cmd sys ([''git'', ''add'', ''--''] @ files) repo w1;
             add_res = fst add_run;
             staged_run = run_cmd sys [''git'', ''diff'', ''--name-only'', ''--cached''] repo
                            (snd add_run);
             staged_files = nonblank_lines (stdout (fst staged_run))
         in (Staged (returncode add_res = Some 0) staged_files (stdout add_res) (stderr add_res),
             snd staged_run)))"

section \<open>Push Negotiator: \<open>git_push\<close>\<close>

text \<open>
  \<open>No_branch\<close> is \<open>{"ok": False, "msg": "Cannot determine current branch."}\<close>;
  \<open>Pushed ok out err branch\<close> is \<open>{"ok": ok, "stdout": out, "stderr": err, "branch":
  branch}\<close>.
\<close>

datatype push_result =
    No_branch
  | Pushed bool "string option" "string option" string

definition git_push :: "'w sys \<Rightarrow> string \<Rightarrow> string \<Rightarrow> 'w \<Rightarrow> push_result \<times> 'w" where
  "git_push sys remote repo_dir w0 =
     (let repo = abspath sys repo_dir;
          br_run = run_cmd sys [''git'', ''rev-parse'', ''--abbrev-ref'', ''HEAD''] repo w0;
          branch = strip (case stdout (fst br_run) of None \<Rightarrow> [] | Some s \<Rightarrow> s);
          w1 = snd br_run
      in
      if branch = [] then (No_branch, w1)
      else
        (let push_run = run_cmd sys [''git'', ''push'', remote, branch] repo w1;
             push_res = fst push_run
         in
         if returncode push_res = Some 0 then
           (Pushed True (stdout push_res) (stderr push_res) branch, snd push_run)
         else
           (let push_up_run = run_cmd sys [''git'', ''push'', ''-u'', remote, branch] repo
                                (snd push_run);
                push_up_res = fst push_up_run
            in (Pushed (returncode push_up_res = Some 0) (stdout push_up_res) (stderr push_up_res)
                  branch,
                snd push_up_run))))"

section \<open>Per-class gap analysis: \<open>analyze_coverage\<close>\<close>

text \<open>
  One entry of \<open>uncovered\<close>: \<open>{'package': p, 'class': c, 'missed': m, 'covered': v}\<close>,
  where \<open>p\<close> and \<open>c\<close> are \<open>None\<close> for an element without a \<open>name\<close>.
\<close>

record uncovered_unit =
  unit_package :: "string option"
  unit_class :: "string option"
  unit_missed :: int
  unit_covered :: int

text \<open>The three nested loops, innermost first; \<open>uncovered\<close> is the list they append to.\<close>

fun class_counters ::
  "string option \<Rightarrow> string option \<Rightarrow> xml list \<Rightarrow> uncovered_unit list
     \<Rightarrow> py_exn + uncovered_unit list" where
  "class_counters pkg_name cls_name [] uncovered = Inr uncovered"
| "class_counters pkg_name cls_name (counter # rest) uncovered =
     (if get_attr counter ''type'' = Some ''LINE'' then
        (case int_of_attr (get_attr counter ''missed'') of
           Inl e \<Rightarrow> Inl e
         | Inr missed \<Rightarrow>
             (case int_of_attr (get_attr counter ''covered'') of
                Inl e \<Rightarrow> Inl e
              | Inr covered \<Rightarrow>
                  class_counters pkg_name cls_name rest
                    (if missed > 0 then
                       uncovered @ [\<lparr> unit_package = pkg_name, unit_class = cls_name,
                                      unit_missed = missed, unit_covered = covered \<rparr>]
                     else uncovered)))
      else class_counters pkg_name cls_name rest uncovered)"

fun package_classes ::
  "string option \<Rightarrow> xml list \<Rightarrow> uncovered_unit list \<Rightarrow> py_exn + uncovered_unit list" where
  "package_classes pkg_name [] uncovered = Inr uncovered"
| "package_classes pkg_name (cls # rest) uncovered =
     (case class_counters pkg_name (get_attr cls ''name'') (findall_child cls ''counter'') uncovered of
        Inl e \<Rightarrow> Inl e
      | Inr uncovered' \<Rightarrow> package_classes pkg_name rest uncovered')"

fun report_packages :: "xml list \<Rightarrow> uncovered_unit list \<Rightarrow> py_exn + uncovered_unit list" where
  "report_packages [] uncovered = Inr uncovered"
| "report_packages (pkg # rest) uncovered =
     (case package_classes (get_attr pkg ''name'') (findall_child pkg ''class'') uncovered of
        Inl e \<Rightarrow> Inl e
      | Inr uncovered' \<Rightarrow> report_packages rest uncovered')"

definition recommendation :: "uncovered_unit \<Rightarrow> string" where
  "recommendation item =
     ''Increase tests for '' @ str_of_attr (unit_package item) @ ''.''
       @ str_of_attr (unit_class item) @ '' (missed lines: '' @ str_int (unit_missed item) @ '')''"

text \<open>
  \<open>Report_not_found\<close> is \<open>{"ok": False, "msg": "JaCoCo XML report not found. Run Maven
  tests with JaCoCo enabled."}\<close>; \<open>Analysis file uncovered recommendations\<close> is
  \<open>{"ok": True, "report": {"file": file, "uncovered": uncovered, "recommendations":
  recommendations}}\<close>. An exception that \<open>analyze_coverage\<close> does not catch is \<open>Inl\<close>.
\<close>

datatype analysis =
    Report_not_found
  | Analysis string "uncovered_unit list" "string list"

text \<open>The search for the report file, up to \<open>found\<close>.\<close>

definition locate_report :: "'w sys \<Rightarrow> 'w \<Rightarrow> string \<Rightarrow> string option \<Rightarrow> string option" where
  "locate_report sys w project_dir jacoco_xml =
     (let p = path_of sys project_dir;
          candidates =
            (if jacoco_xml \<noteq> None \<and> jacoco_xml \<noteq> Some [] then [path_of sys (the jacoco_xml)]
             else rglob sys w p ''jacoco.xml'' @ rglob sys w p ''**/jacoco.xml'');
          candidates =
            (if candidates = [] then
               [path_div sys (path_div sys (path_div sys (path_div sys p ''target'') ''site'')
                  ''jacoco'') ''jacoco.xml'']
             else candidates)
      in find (path_exists sys w) candidates)"

definition analyze_coverage ::
  "'w sys \<Rightarrow> 'w \<Rightarrow> string \<Rightarrow> string option \<Rightarrow> py_exn + analysis" where
  "analyze_coverage sys w project_dir jacoco_xml =
     (case locate_report sys w project_dir jacoco_xml of
        None \<Rightarrow> Inr Report_not_found
      | Some found \<Rightarrow>
          (case et_parse sys w found of
             Inl e \<Rightarrow> Inl e
           | Inr rt \<Rightarrow>
               (case report_packages (findall_below rt ''package'') [] of
                  Inl e \<Rightarrow> Inl e
                | Inr uncovered \<Rightarrow> Inr (Analysis found uncovered (map recommendation uncovered)))))"

section \<open>Skeleton Generator: \<open>generate_tests\<close>\<close>

text \<open>
  The file system that \<open>generate_tests\<close> writes to: a path is the list of its
  components below the file-system root (\<open>[]\<close> is the root itself, a directory), and
  each existing path holds a directory or a file with its text.
\<close>

datatype node = Dir | File string

type_synonym path = "string list"

type_synonym fs = "path \<Rightarrow> node option"

definition fs_exists :: "fs \<Rightarrow> path \<Rightarrow> bool" where
  "fs_exists fs p = (p = [] \<or> fs p \<noteq> None)"

definition fs_is_dir :: "fs \<Rightarrow> path \<Rightarrow> bool" where
  "fs_is_dir fs p = (p = [] \<or> fs p = Some Dir)"

definition parent_node :: "fs \<Rightarrow> path \<Rightarrow> node option" where
  "parent_node fs p = (if butlast p = [] then Some Dir else fs (butlast p))"

text \<open>\<open>os.mkdir(d)\<close>: the directory must not exist and its parent must be a directory.\<close>

definition os_mkdir :: "path \<Rightarrow> fs \<Rightarrow> py_exn + fs" where
  "os_mkdir d fs =
     (if fs_exists fs d then Inl FileExistsError
      else
        (case parent_node fs d of
           None \<Rightarrow> Inl FileNotFoundError
         | Some Dir \<Rightarrow> Inr (fs(d \<mapsto> Dir))
         | Some (File content) \<Rightarrow> Inl NotADirectoryError))"

text \<open>
  \<open>Path.mkdir(parents=False, exist_ok=True)\<close>: an \<open>OSError\<close> other than
  \<open>FileNotFoundError\<close> is swallowed when the path is a directory already.
\<close>

definition mkdir_exist_ok :: "path \<Rightarrow> fs \<Rightarrow> py_exn + fs" where
  "mkdir_exist_ok d fs =
     (case os_mkdir d fs of
        Inr fs' \<Rightarrow> Inr fs'
      | Inl e \<Rightarrow> if e \<noteq> FileNotFoundError \<and> fs_is_dir fs d then Inr fs else Inl e)"

text \<open>
  \<open>Path.mkdir(parents=True, exist_ok=True)\<close>: on \<open>FileNotFoundError\<close> the parent is made
  first, in the same way, and the directory after it.
\<close>

function mkdir_parents :: "path \<Rightarrow> fs \<Rightarrow> py_exn + fs" where
  "mkdir_parents d fs =
     (case os_mkdir d fs of
        Inr fs' \<Rightarrow> Inr fs'
      | Inl e \<Rightarrow>
          if e = FileNotFoundError then
            (if d = [] then Inl e
             else
               (case mkdir_parents (butlast d) fs of
                  Inl e' \<Rightarrow> Inl e'
                | Inr fs' \<Rightarrow> mkdir_exist_ok d fs'))
          else if fs_is_dir fs d then Inr fs
          else Inl e)"
  by pat_completeness auto
termination
  by (relation "measure (\<lambda>(d, fs). length d)") auto

declare mkdir_parents.simps [simp del]

text \<open>\<open>p.write_text(content)\<close>: creates the file or replaces its text.\<close>

definition write_text :: "path \<Rightarrow> string \<Rightarrow> fs \<Rightarrow> py_exn + fs" where
  "write_text p content fs =
     (if fs_is_dir fs p then Inl IsADirectoryError
      else
        (case parent_node fs p of
           None \<Rightarrow> Inl FileNotFoundError
         | Some Dir \<Rightarrow> Inr (fs(p \<mapsto> File content))
         | Some (File c) \<Rightarrow> Inl NotADirectoryError))"

text \<open>
  What the loop iterates over: for each file that \<open>src_root.rglob("*.java")\<close> yields, its
  \<open>stem\<close> and what \<open>read_text\<close> gives. The two regular expressions are applied through
  \<open>package_search\<close> (\<open>package_rx.search(text)\<close>, the first group of the match) and
  \<open>method_findall\<close> (\<open>method_rx.findall(text)\<close>, pairs of name and arguments); the
  theorems hold whatever they extract.
\<close>

record java_file =
  stem :: string
  read_text :: "py_exn + string"

record source_tree =
  src_root_str :: string
  src_root_exists :: bool
  java_files :: "java_file list"

record scanner =
  package_search :: "string \<Rightarrow> string option"
  method_findall :: "string \<Rightarrow> (string \<times> string) list"

fun split_on :: "char \<Rightarrow> string \<Rightarrow> string \<Rightarrow> string list" where
  "split_on sep [] cur = [rev cur]"
| "split_on sep (c # cs) cur =
     (if c = sep then rev cur # split_on sep cs [] else split_on sep cs (c # cur))"

text \<open>
  \<open>test_root / package.replace('.', os.sep)\<close>: the package's dots separate path
  components, empty components are dropped, and a package that starts with a dot gives
  an absolute path, which replaces \<open>test_root\<close>.
\<close>

definition package_dir :: "path \<Rightarrow> string \<Rightarrow> path" where
  "package_dir test_root package =
     (let parts = filter (\<lambda>s. s \<noteq> []) (split_on CHR ''.'' package []) in
      if package \<noteq> [] \<and> hd package = CHR ''.'' then parts else test_root @ parts)"

definition nl :: char where
  "nl = CHR 0x0A"

definition test_method_text :: "string \<Rightarrow> string" where
  "test_method_text mname =
     ''    @Test'' @ [nl] @ ''    public void test_'' @ mname @ ''() {'' @ [nl]
       @ ''        // TODO: add assertions for '' @ mname @ [nl]
       @ ''        fail('' @ [CHR 0x22] @ ''Not yet implemented'' @ [CHR 0x22] @ '');'' @ [nl]
       @ ''    }'' @ [nl, nl]"

definition skeleton :: "string \<Rightarrow> string \<Rightarrow> (string \<times> string) list \<Rightarrow> string" where
  "skeleton package test_class_name methods =
     (if package \<noteq> [] then ''package '' @ package @ '';'' @ [nl] else [])
       @ ''import org.junit.jupiter.api.Test;'' @ [nl]
       @ ''import static org.junit.jupiter.api.Assertions.*;'' @ [nl]
       @ ''public class '' @ test_class_name @ '' {'' @ [nl]
       @ concat (map (\<lambda>m. test_method_text (fst m)) methods)
       @ ''}'' @ [nl]"

text \<open>
  The body of the loop for one source file: \<open>Inr True\<close> when a skeleton was written,
  \<open>Inr False\<close> when the file was passed over (\<open>continue\<close>).
\<close>

definition process_file :: "scanner \<Rightarrow> path \<Rightarrow> java_file \<Rightarrow> fs \<Rightarrow> (py_exn + bool) \<times> fs" where
  "process_file sc test_root java_file fs =
     (case read_text java_file of
        Inl e \<Rightarrow> (Inl e, fs)
      | Inr src_text \<Rightarrow>
          (let package = (case package_search sc src_text of Some g \<Rightarrow> g | None \<Rightarrow> []);
               methods = method_findall sc src_text
           in
           if methods = [] then (Inr False, fs)
           else
             (let test_class_name = stem java_file @ ''Test'';
                  out_dir_full = package_dir test_root package
              in
              case mkdir_parents out_dir_full fs of
                Inl e \<Rightarrow> (Inl e, fs)
              | Inr fs1 \<Rightarrow>
                  (let test_file = out_dir_full @ [test_class_name @ ''.java''] in
                   if fs_exists fs1 test_file then (Inr False, fs1)
                   else
                     (case write_text test_file (skeleton package test_class_name methods) fs1 of
                        Inl e \<Rightarrow> (Inl e, fs1)
                      | Inr fs2 \<Rightarrow> (Inr True, fs2))))))"

fun generate_loop ::
  "scanner \<Rightarrow> path \<Rightarrow> java_file list \<Rightarrow> nat \<Rightarrow> fs \<Rightarrow> (py_exn + nat) \<times> fs" where
  "generate_loop sc test_root [] created fs = (Inr created, fs)"
| "generate_loop sc test_root (java_file # rest) created fs =
     (case process_file sc test_root java_file fs of
        (Inl e, fs') \<Rightarrow> (Inl e, fs')
      | (Inr wrote, fs') \<Rightarrow>
          generate_loop sc test_root rest (if wrote then created + 1 else created) fs')"

text \<open>
  \<open>Source_root_missing msg\<close> is \<open>{"ok": False, "msg": msg}\<close>; \<open>Created n\<close> is
  \<open>{"ok": True, "created_tests": n}\<close>.
\<close>

datatype generate_result = Source_root_missing string | Created nat

definition generate_tests ::
  "scanner \<Rightarrow> source_tree \<Rightarrow> path \<Rightarrow> fs \<Rightarrow> (py_exn + generate_result) \<times> fs" where
  "generate_tests sc tree test_root fs =
     (if \<not> src_root_exists tree then
        (Inr (Source_root_missing (''Source root not found: '' @ src_root_str tree)), fs)
      else
        (case generate_loop sc test_root (java_files tree) 0 fs of
           (Inl e, fs') \<Rightarrow> (Inl e, fs')
         | (Inr created, fs') \<Rightarrow> (Inr (Created created), fs')))"

section \<open>Notions used to state the properties\<close>

text \<open>
  The \<open>LINE\<close> counters anywhere below the root, the integer a counter attribute holds
  (meaningful where \<open>int()\<close> succeeds on it), and the two conditions on a counter:
  both attributes are integers; both are non-negative integers, as the counters of a
  coverage report are.
\<close>

definition line_counters_below :: "xml \<Rightarrow> xml list" where
  "line_counters_below rt = filter is_line_counter (findall_below rt ''counter'')"

definition counter_value :: "xml \<Rightarrow> string \<Rightarrow> int" where
  "counter_value counter k = (case int_of_attr (get_attr counter k) of Inr i \<Rightarrow> i | Inl e \<Rightarrow> 0)"

definition counts_nonneg :: "xml \<Rightarrow> bool" where
  "counts_nonneg counter =
     (case int_of_attr (get_attr counter ''missed'') of
        Inl e \<Rightarrow> False
      | Inr m \<Rightarrow>
          (case int_of_attr (get_attr counter ''covered'') of
             Inl e \<Rightarrow> False
           | Inr c \<Rightarrow> 0 \<le> m \<and> 0 \<le> c))"

definition counts_parse :: "xml \<Rightarrow> bool" where
  "counts_parse counter =
     (case int_of_attr (get_attr counter ''missed'') of
        Inl e \<Rightarrow> False
      | Inr m \<Rightarrow> (case int_of_attr (get_attr counter ''covered'') of Inl e \<Rightarrow> False | Inr c \<Rightarrow> True))"

text \<open>
  The gap analysis in the spec's words: walking every package of the tree and every
  class of it, one unit for each \<open>LINE\<close> counter of the class with \<open>missed > 0\<close>.
\<close>

definition class_line_counters :: "xml \<Rightarrow> xml list" where
  "class_line_counters cls = filter is_line_counter (findall_child cls ''counter'')"

definition class_units :: "xml \<Rightarrow> xml \<Rightarrow> uncovered_unit list" where
  "class_units pkg cls =
     map (\<lambda>counter. \<lparr> unit_package = get_attr pkg ''name'', unit_class = get_attr cls ''name'',
                      unit_missed = counter_value counter ''missed'',
                      unit_covered = counter_value counter ''covered'' \<rparr>)
       (filter (\<lambda>counter. counter_value counter ''missed'' > 0) (class_line_counters cls))"

definition package_units :: "xml \<Rightarrow> uncovered_unit list" where
  "package_units pkg = concat (map (class_units pkg) (findall_child pkg ''class''))"

definition gap_units :: "xml \<Rightarrow> uncovered_unit list" where
  "gap_units rt = concat (map package_units (findall_below rt ''package''))"

text \<open>Every \<open>LINE\<close> counter of every class carries integer \<open>missed\<close> and \<open>covered\<close>.\<close>

definition class_counters_parse :: "xml \<Rightarrow> bool" where
  "class_counters_parse rt =
     list_all (\<lambda>pkg. list_all (\<lambda>cls. list_all counts_parse (class_line_counters cls))
                       (findall_child pkg ''class''))
       (findall_below rt ''package'')"

text \<open>A source file is settled when running the loop body on it changes nothing.\<close>

definition settled :: "scanner \<Rightarrow> path \<Rightarrow> fs \<Rightarrow> java_file \<Rightarrow> bool" where
  "settled sc test_root fs java_file =
     (case read_text java_file of
        Inl e \<Rightarrow> False
      | Inr src_text \<Rightarrow>
          method_findall sc src_text = []
          \<or> (let out_dir_full = package_dir test_root
                     (case package_search sc src_text of Some g \<Rightarrow> g | None \<Rightarrow> [])
             in fs_is_dir fs out_dir_full
                \<and> fs_exists fs (out_dir_full @ [stem java_file @ ''Test'' @ ''.java''])))"

section \<open>A concrete system for the examples\<close>

text \<open>
  The examples run on a small system: a matcher for patterns made of \<open>*\<close>, \<open>?\<close> and
  literal characters in place of \<open>fnmatch\<close>, three reports, a repository whose state is
  the number of commands run so far (nothing is staged in state \<open>0\<close>, and a plain push
  fails before state \<open>5\<close>), and a source tree with one class that has a public method.
\<close>

fun wildcard_match :: "string \<Rightarrow> string \<Rightarrow> bool" where
  "wildcard_match [] s = (s = [])"
| "wildcard_match (p # ps) [] = (p = CHR ''*'' \<and> wildcard_match ps [])"
| "wildcard_match (p # ps) (c # cs) =
     (if p = CHR ''*'' then wildcard_match ps (c # cs) \<or> wildcard_match (p # ps) cs
      else (p = CHR ''?'' \<or> p = c) \<and> wildcard_match ps cs)"

definition line_counter :: "string \<Rightarrow> string \<Rightarrow> xml" where
  "line_counter m c = Element ''counter'' [(''type'', ''LINE''), (''missed'', m), (''covered'', c)] []"

definition demo_gap_report :: xml where
  "demo_gap_report =
     Element ''report'' [(''name'', ''demo'')]
       [Element ''package'' [(''name'', ''com/example'')]
          [Element ''class'' [(''name'', ''com/example/App'')]
             [Element ''counter'' [(''type'', ''BRANCH''), (''missed'', ''2''), (''covered'', ''6'')] [],
              line_counter ''0'' ''10''],
           Element ''class'' [(''name'', ''com/example/Util'')]
             [line_counter ''3'' ''7'']]]"

definition demo_totals_report :: xml where
  "demo_totals_report =
     Element ''report'' [(''name'', ''demo'')]
       [Element ''package'' [(''name'', ''com/example'')]
          [Element ''class'' [(''name'', ''com/example/App'')] [line_counter ''5'' ''45''],
           Element ''class'' [(''name'', ''com/example/Util'')] [line_counter ''10'' ''40'']]]"

definition demo_broken_report :: xml where
  "demo_broken_report =
     Element ''report'' [(''name'', ''demo'')]
       [Element ''package'' [(''name'', ''com/example'')]
          [Element ''class'' [(''name'', ''com/example/App'')]
             [Element ''counter'' [(''type'', ''LINE''), (''covered'', ''10'')] []],
           Element ''class'' [(''name'', ''com/example/Util'')]
             [line_counter ''3'' ''7'']]]"

definition demo_run :: "string list \<Rightarrow> string \<Rightarrow> nat \<Rightarrow> cmd_result \<times> nat" where
  "demo_run argv cwd w =
     (\<lparr> returncode = Some (if argv = [''git'', ''push'', ''origin'', ''main''] \<and> w < 5 then 1 else 0),
        stdout = Some
          (if take 2 argv = [''git'', ''diff''] then
             (if w = 0 then [] else ''src/main/java/App.java'' @ [CHR 0x0A])
           else if take 2 argv = [''git'', ''status''] then
             (if w = 0 then ''?? target/App.class'' @ [CHR 0x0A]
              else '' M src/main/java/App.java'' @ [CHR 0x0A] @ ''?? target/App.class'' @ [CHR 0x0A]
                     @ ''?? build.log'' @ [CHR 0x0A])
           else if take 2 argv = [''git'', ''rev-parse''] then ''main'' @ [CHR 0x0A]
           else []),
        stderr = Some [] \<rparr>,
      w + 1)"

definition demo_parse :: "string \<Rightarrow> py_exn + xml" where
  "demo_parse p =
     (if p = ''gaps.xml'' then Inr demo_gap_report
      else if p = ''totals.xml'' then Inr demo_totals_report
      else if p = ''broken.xml'' then Inr demo_broken_report
      else Inl (ParseError ''syntax error: line 1, column 0''))"

definition demo_sys :: "nat sys" where
  "demo_sys =
     \<lparr> run_cmd = demo_run,
       abspath = (\<lambda>d. ''/repo''),
       fnmatch = (\<lambda>name pat. wildcard_match pat name),
       path_of = (\<lambda>s. s),
       path_div = (\<lambda>p s. p @ ''/'' @ s),
       path_exists = (\<lambda>w p. p \<in> set [''gaps.xml'', ''totals.xml'', ''broken.xml'', ''garbage.xml'']),
       rglob = (\<lambda>w p pat. []),
       et_parse = (\<lambda>w. demo_parse),
       exc_str = (\<lambda>e. ''error''),
       float_repr = (\<lambda>x. ''90.0'') \<rparr>"

definition demo_scanner :: scanner where
  "demo_scanner =
     \<lparr> package_search = (\<lambda>src_text. if src_text = ''app'' then Some ''com.example'' else None),
       method_findall = (\<lambda>src_text. if src_text = ''app'' then [(''run'', ''int n'')] else []) \<rparr>"

definition demo_tree :: source_tree where
  "demo_tree =
     \<lparr> src_root_str = ''codebase/src/main/java'', src_root_exists = True,
       java_files = [\<lparr> stem = ''App'', read_text = Inr ''app'' \<rparr>,
                     \<lparr> stem = ''Constants'', read_text = Inr ''constants'' \<rparr>] \<rparr>"

definition demo_test_root :: path where
  "demo_test_root = [''codebase'', ''src'', ''test'', ''java'']"

definition demo_edited_fs :: fs where
  "demo_edited_fs =
     [[''codebase''] \<mapsto> Dir,
      [''codebase'', ''src''] \<mapsto> Dir,
      [''codebase'', ''src'', ''test''] \<mapsto> Dir,
      [''codebase'', ''src'', ''test'', ''java''] \<mapsto> Dir,
      [''codebase'', ''src'', ''test'', ''java'', ''com''] \<mapsto> Dir,
      [''codebase'', ''src'', ''test'', ''java'', ''com'', ''example''] \<mapsto> Dir,
      [''codebase'', ''src'', ''test'', ''java'', ''com'', ''example'', ''AppTest.java'']
         \<mapsto> File ''edited by hand'']"

section \<open>Properties\<close>

subsection \<open>The float model on examples\<close>

lemma float_examples:
  "int_truediv 1 3 = Inr (Fin (6004799503160661 / 18014398509481984))"
  "int_truediv 85 100 = Inr (Fin (7656119366529843 / 9007199254740992))"
  "float_mul (Fin (7656119366529843 / 9007199254740992)) (Fin 100) = Fin 85"
  by code_simp+

lemma format_examples:
  "format_2f (Fin 85) = ''85.00''"
  "format_2f (Fin (1 / 8)) = ''0.12''"
  "format_2f (Fin (3 / 8)) = ''0.38''"
  "format_2f (Fin (- 1 / 1000)) = ''-0.00''"
  "str_int (- 1203) = ''-1203''"
  by code_simp+

lemma py_int_examples:
  "py_int '' 1_000 '' = Some 1000"
  "py_int ''-7'' = Some (- 7)"
  "py_int ''12a'' = None"
  "py_int [] = None"
  by code_simp+

subsection \<open>The observed system\<close>

lemma logged_sel [simp]:
  "run_cmd (logged sys) argv cwd wl =
     (fst (run_cmd sys argv cwd (fst wl)), (snd (run_cmd sys argv cwd (fst wl)), snd wl @ [argv]))"
  "abspath (logged sys) = abspath sys"
  "fnmatch (logged sys) = fnmatch sys"
  "path_of (logged sys) = path_of sys"
  "path_div (logged sys) = path_div sys"
  "path_exists (logged sys) wl = path_exists sys (fst wl)"
  "rglob (logged sys) wl = rglob sys (fst wl)"
  "et_parse (logged sys) wl = et_parse sys (fst wl)"
  "exc_str (logged sys) = exc_str sys"
  "float_repr (logged sys) = float_repr sys"
  by (simp_all add: logged_def)

lemma compute_logged [simp]:
  "compute_jacoco_coverage (logged sys) wl p = compute_jacoco_coverage sys (fst wl) p"
  by (simp add: compute_jacoco_coverage_def Let_def cong: if_cong sum.case_cong)

lemma skip_path_logged [simp]:
  "skip_path (logged sys) repo pats path = skip_path sys repo pats path"
  by (simp add: skip_path_def)

subsection \<open>Commit Gate\<close>

lemma demo_diff0:
  "run_cmd demo_sys [''git'', ''diff'', ''--name-only'', ''--cached''] (abspath demo_sys ''.'') 0
     = (\<lparr>returncode = Some 0, stdout = Some [], stderr = Some []\<rparr>, 1)"
  by code_simp

lemma demo_diff1:
  "run_cmd demo_sys [''git'', ''diff'', ''--name-only'', ''--cached''] (abspath demo_sys ''.'') 1
     = (\<lparr>returncode = Some 0, stdout = Some (''src/main/java/App.java'' @ [CHR 0x0A]),
          stderr = Some []\<rparr>, 2)"
  by code_simp

lemma demo_staged0:
  "nonblank_lines (stdout \<lparr>returncode = Some 0, stdout = Some [], stderr = Some []\<rparr>) = []"
  by code_simp

lemma demo_staged1:
  "nonblank_lines (stdout \<lparr>returncode = Some 0,
      stdout = Some (''src/main/java/App.java'' @ [CHR 0x0A]), stderr = Some []\<rparr>) \<noteq> []"
  by code_simp

lemma demo_totals: "compute_jacoco_coverage demo_sys 2 ''totals.xml'' = AggOk (Fin 85) 85 15"
  by code_simp

lemma demo_missing:
  "compute_jacoco_coverage demo_sys 2 ''missing.xml'' = AggFail ''File not found: missing.xml''"
  by code_simp

lemma demo_final_message:
  "''Add parser | Coverage: 85.00% (85/100)''
     = ''Add parser'' @ '' | Coverage: '' @ format_2f (Fin 85) @ ''% (''
         @ str_int 85 @ ''/'' @ str_int (85 + 15) @ '')''"
  by code_simp

lemma demo_commit:
  "run_cmd demo_sys [''git'', ''commit'', ''-m'', ''Add parser | Coverage: 85.00% (85/100)'']
       (abspath demo_sys ''.'') 2
     = (\<lparr>returncode = Some 0, stdout = Some [], stderr = Some []\<rparr>, 3)"
  by code_simp

lemma demo_commit_plain:
  "run_cmd demo_sys [''git'', ''commit'', ''-m'', ''Add parser''] (abspath demo_sys ''.'') 2
     = (\<lparr>returncode = Some 0, stdout = Some [], stderr = Some []\<rparr>, 3)"
  by code_simp

text \<open>
  Claim C1. The two terminal failures of the commit gate perform no commit. Let the
  staged-changes query \<open>git diff --name-only --cached\<close> return \<open>staged_res\<close> and leave
  the world in \<open>w1\<close>. If its output has no non-blank line, \<open>git_commit\<close> returns
  \<open>{"ok": False, "msg": "No staged changes to commit."}\<close>, whatever the coverage
  arguments are. If it has one, coverage was requested with a report path, the
  aggregation succeeded with \<open>percent\<close>, and a threshold \<open>t\<close> with \<open>percent < t\<close> was
  supplied, it returns the not-ok result with the "below threshold" message and the
  coverage dict. In both cases the query is the only command run and the world is left
  as the query left it: \<open>git commit\<close> is never invoked.
\<close>

theorem commit_gate_terminal_failures:
  assumes "run_cmd sys [''git'', ''diff'', ''--name-only'', ''--cached''] (abspath sys repo_dir) w
             = (staged_res, w1)"
  shows "(nonblank_lines (stdout staged_res) = [] \<longrightarrow>
            git_commit (logged sys) message repo_dir include_coverage jacoco_xml coverage_threshold
                (w, [])
              = (Inr (Refused ''No staged changes to commit.'' None),
                 (w1, [[''git'', ''diff'', ''--name-only'', ''--cached'']])))
       \<and> (nonblank_lines (stdout staged_res) \<noteq> [] \<and> include_coverage
            \<and> jacoco_xml = Some path \<and> path \<noteq> []
            \<and> compute_jacoco_coverage sys w1 path = AggOk percent covered missed
            \<and> coverage_threshold = Some t \<and> float_lt percent t \<longrightarrow>
            git_commit (logged sys) message repo_dir include_coverage jacoco_xml coverage_threshold
                (w, [])
              = (Inr (Refused
                        (''Coverage '' @ format_2f percent @ ''% below threshold ''
                           @ float_repr sys t @ ''% - aborting commit.'')
                        (Some (AggOk percent covered missed))),
                 (w1, [[''git'', ''diff'', ''--name-only'', ''--cached'']])))"
  using assms by (simp add: git_commit_def Let_def)

text \<open>
  On the example system: with nothing staged (state \<open>0\<close>) the call is refused whatever
  the coverage arguments; with a staged file (state \<open>1\<close>), 85 of 100 lines covered and
  the threshold \<open>90.0\<close> it is refused as well, and only the query was run.
\<close>

theorem commit_gate_terminal_failures_witness:
  "git_commit (logged demo_sys) ''Add parser'' ''.'' True (Some ''totals.xml'') (Some (Fin 90)) (0, [])
     = (Inr (Refused ''No staged changes to commit.'' None),
        (1, [[''git'', ''diff'', ''--name-only'', ''--cached'']]))
   \<and> git_commit (logged demo_sys) ''Add parser'' ''.'' True (Some ''totals.xml'') (Some (Fin 90)) (1, [])
     = (Inr (Refused ''Coverage 85.00% below threshold 90.0% - aborting commit.''
               (Some (AggOk (Fin 85) 85 15))),
        (2, [[''git'', ''diff'', ''--name-only'', ''--cached'']]))"
proof -
  have fmt: "format_2f (Fin 85) = ''85.00''" by code_simp
  have rep: "float_repr demo_sys (Fin 90) = ''90.0''" by code_simp
  have lt: "float_lt (Fin 85) (Fin 90)" by simp
  note a = commit_gate_terminal_failures [OF demo_diff0, THEN conjunct1, rule_format,
      OF demo_staged0]
  note b = commit_gate_terminal_failures [OF demo_diff1, THEN conjunct2, rule_format,
      where path = "''totals.xml''" and percent = "Fin 85" and covered = 85 and missed = 15
        and t = "Fin 90" and include_coverage = True]
  show ?thesis
    using a b demo_staged1 demo_totals lt by (simp add: fmt rep)
qed

text \<open>
  Claim C2 (the code departs from it). The claim: when coverage was requested and the
  aggregation fails, the commit still runs, with "coverage unknown" and the reason in
  its message, and a structured result is returned. What \<open>git_commit\<close> does: with
  staged changes, coverage requested with a report path, and an aggregation that
  failed, it raises \<open>UnboundLocalError\<close> for \<open>percent\<close>; the staged-changes query is the
  only command run, so nothing is committed.
\<close>

theorem commit_raises_when_coverage_unknown:
  assumes "run_cmd sys [''git'', ''diff'', ''--name-only'', ''--cached''] (abspath sys repo_dir) w
             = (staged_res, w1)"
    and "nonblank_lines (stdout staged_res) \<noteq> []"
    and "include_coverage" and "jacoco_xml = Some path" and "path \<noteq> []"
    and "compute_jacoco_coverage sys w1 path = AggFail msg"
  shows "git_commit (logged sys) message repo_dir include_coverage jacoco_xml coverage_threshold
             (w, [])
           = (Inl (UnboundLocalError ''percent''),
              (w1, [[''git'', ''diff'', ''--name-only'', ''--cached'']]))"
  using assms by (simp add: git_commit_def Let_def)

text \<open>The failing call: a staged file, coverage requested, and a report path with no file.\<close>

theorem commit_raises_when_coverage_unknown_witness:
  "git_commit (logged demo_sys) ''Add parser'' ''.'' True (Some ''missing.xml'') None (1, [])
     = (Inl (UnboundLocalError ''percent''),
        (2, [[''git'', ''diff'', ''--name-only'', ''--cached'']]))"
  using commit_raises_when_coverage_unknown [OF demo_diff1 demo_staged1 _ _ _ demo_missing,
      where include_coverage = True and jacoco_xml = "Some ''missing.xml''"]
  by simp

text \<open>
  Claim C3. With staged changes, coverage requested with a report path, an aggregation
  that succeeded with \<open>percent\<close>, \<open>covered\<close> and \<open>missed\<close>, and no threshold violated
  (none supplied, or \<open>percent < t\<close> false), the commit command is run with the message
  \<open>"{message} | Coverage: {percent:.2f}% ({covered}/{covered+missed})"\<close>, after the
  staged-changes query and nothing else; the result carries the commit command's
  outcome (\<open>ok\<close> exactly when it returned \<open>0\<close>) and the coverage dict.
\<close>

theorem commit_message_with_coverage:
  assumes "run_cmd sys [''git'', ''diff'', ''--name-only'', ''--cached''] (abspath sys repo_dir) w
             = (staged_res, w1)"
    and "nonblank_lines (stdout staged_res) \<noteq> []"
    and "include_coverage" and "jacoco_xml = Some path" and "path \<noteq> []"
    and "compute_jacoco_coverage sys w1 path = AggOk percent covered missed"
    and "case coverage_threshold of None \<Rightarrow> True | Some t \<Rightarrow> \<not> float_lt percent t"
    and "final_message = message @ '' | Coverage: '' @ format_2f percent @ ''% (''
           @ str_int covered @ ''/'' @ str_int (covered + missed) @ '')''"
    and "run_cmd sys [''git'', ''commit'', ''-m'', final_message] (abspath sys repo_dir) w1
           = (commit_res, w2)"
  shows "git_commit (logged sys) message repo_dir include_coverage jacoco_xml coverage_threshold
             (w, [])
           = (Inr (Ran (returncode commit_res = Some 0) (stdout commit_res) (stderr commit_res)
                     (Some (AggOk percent covered missed))),
              (w2, [[''git'', ''diff'', ''--name-only'', ''--cached''],
                    [''git'', ''commit'', ''-m'', final_message]]))"
  using assms by (simp add: git_commit_def Let_def split: option.splits)

text \<open>
  The example of the claim: \<open>covered = 85\<close>, \<open>missed = 15\<close>, no threshold; the commit is
  made with a message that ends in \<open>Coverage: 85.00% (85/100)\<close>.
\<close>

theorem commit_message_with_coverage_witness:
  "git_commit (logged demo_sys) ''Add parser'' ''.'' True (Some ''totals.xml'') None (1, [])
     = (Inr (Ran True (Some []) (Some []) (Some (AggOk (Fin 85) 85 15))),
        (3, [[''git'', ''diff'', ''--name-only'', ''--cached''],
             [''git'', ''commit'', ''-m'', ''Add parser | Coverage: 85.00% (85/100)'']]))"
  using commit_message_with_coverage [OF demo_diff1 demo_staged1 _ _ _ demo_totals _
      demo_final_message demo_commit,
      where include_coverage = True and jacoco_xml = "Some ''totals.xml''"
        and coverage_threshold = None]
  by simp

text \<open>
  Claim C10. With staged changes, when coverage is not requested or no report path is
  given (\<open>jacoco_xml\<close> is \<open>None\<close> or empty), no coverage is computed and the gate is
  skipped: the commit command is run with the unmodified message, whatever
  \<open>coverage_threshold\<close> is, and the result carries the commit command's outcome (\<open>ok\<close>
  exactly when it returned \<open>0\<close>) and \<open>"coverage": None\<close>.
\<close>

theorem commit_without_report_ignores_threshold:
  assumes "run_cmd sys [''git'', ''diff'', ''--name-only'', ''--cached''] (abspath sys repo_dir) w
             = (staged_res, w1)"
    and "nonblank_lines (stdout staged_res) \<noteq> []"
    and "\<not> include_coverage \<or> jacoco_xml = None \<or> jacoco_xml = Some []"
    and "run_cmd sys [''git'', ''commit'', ''-m'', message] (abspath sys repo_dir) w1
           = (commit_res, w2)"
  shows "git_commit (logged sys) message repo_dir include_coverage jacoco_xml coverage_threshold
             (w, [])
           = (Inr (Ran (returncode commit_res = Some 0) (stdout commit_res) (stderr commit_res)
                     None),
              (w2, [[''git'', ''diff'', ''--name-only'', ''--cached''],
                    [''git'', ''commit'', ''-m'', message]]))"
  using assms by (auto simp add: git_commit_def Let_def)

text \<open>Coverage requested, no report path, threshold \<open>90.0\<close>: the commit is made.\<close>

theorem commit_without_report_ignores_threshold_witness:
  "git_commit (logged demo_sys) ''Add parser'' ''.'' True None (Some (Fin 90)) (1, [])
     = (Inr (Ran True (Some []) (Some []) None),
        (3, [[''git'', ''diff'', ''--name-only'', ''--cached''],
             [''git'', ''commit'', ''-m'', ''Add parser'']]))"
  using commit_without_report_ignores_threshold [OF demo_diff1 demo_staged1 _ demo_commit_plain,
      where include_coverage = True and jacoco_xml = None and coverage_threshold = "Some (Fin 90)"]
  by simp

subsection \<open>Coverage Aggregator\<close>

lemma counts_nonneg_parse: "counts_nonneg c \<Longrightarrow> counts_parse c"
  by (simp add: counts_nonneg_def counts_parse_def split: sum.splits)

lemma sum_line_counters_ok:
  "(\<And>c. c \<in> set cs \<Longrightarrow> is_line_counter c \<Longrightarrow> counts_parse c) \<Longrightarrow>
   sum_line_counters cs tm tc =
     Inr (tm + sum_list (map (\<lambda>c. counter_value c ''missed'') (filter is_line_counter cs)),
          tc + sum_list (map (\<lambda>c. counter_value c ''covered'') (filter is_line_counter cs)))"
proof (induction cs arbitrary: tm tc)
  case Nil
  then show ?case by simp
next
  case (Cons c cs)
  have rest: "\<And>x. x \<in> set cs \<Longrightarrow> is_line_counter x \<Longrightarrow> counts_parse x"
    using Cons.prems by simp
  show ?case
  proof (cases "is_line_counter c")
    case True
    then have "counts_parse c" using Cons.prems by simp
    then obtain m cv where m: "int_of_attr (get_attr c ''missed'') = Inr m"
      and cv: "int_of_attr (get_attr c ''covered'') = Inr cv"
      by (auto simp: counts_parse_def split: sum.splits)
    from True have ty: "get_attr c ''type'' = Some ''LINE''" by (simp add: is_line_counter_def)
    show ?thesis
      using Cons.IH [OF rest, of "tm + m" "tc + cv"] True
      by (simp add: ty m cv counter_value_def)
  next
    case False
    then have ty: "get_attr c ''type'' \<noteq> Some ''LINE''" by (simp add: is_line_counter_def)
    show ?thesis using Cons.IH [OF rest, of tm tc] False by (simp add: ty)
  qed
qed

lemma round_half_even_le: "of_int (round_half_even x) \<le> x + 1"
proof -
  have f: "of_int \<lfloor>x\<rfloor> \<le> x" by (rule of_int_floor_le)
  have "round_half_even x \<le> \<lfloor>x\<rfloor> + 1" by (simp add: round_half_even_def Let_def)
  then have "(of_int (round_half_even x) :: rat) \<le> of_int (\<lfloor>x\<rfloor> + 1)"
    by (simp only: of_int_le_iff)
  also have "\<dots> \<le> x + 1" using f by simp
  finally show ?thesis .
qed

lemma bitlen_one: "bitlen 1 = 1"
  by (simp add: bitlen_def floorlog_def)

lemma ilog2_le0: "0 < q \<Longrightarrow> q \<le> 1 \<Longrightarrow> ilog2 q \<le> 0"
proof (cases "1 \<le> q")
  case True
  assume "q \<le> 1"
  with True have "q = 1" by simp
  then show ?thesis by (simp add: ilog2_def bitlen_one)
next
  case False
  have "0 \<le> bitlen (\<lceil>1 / q\<rceil> - 1)" by (rule bitlen_nonneg)
  with False show ?thesis by (simp add: ilog2_def)
qed

lemma pow2_1024_gt: "(2::rat) < pow2 1024"
proof -
  have "(2::rat) ^ 1 < 2 ^ 1024" by (rule power_strict_increasing) simp_all
  then show ?thesis by (simp add: pow2_def)
qed

lemma round64_unit:
  assumes "0 \<le> q" and "q \<le> 1"
  shows "\<exists>r. round64 q = Some r"
proof (cases "q = 0")
  case True
  then show ?thesis by (simp add: round64_def)
next
  case False
  with assms have pos: "0 < q" by simp
  define qe where "qe = max (ilog2 q - 52) (- 1074)"
  have neg: "qe < 0" using ilog2_le0 [OF pos assms(2)] by (simp add: qe_def)
  define N :: rat where "N = 2 ^ nat (- qe)"
  have N: "1 \<le> N" by (simp add: N_def)
  have p: "pow2 qe = 1 / N" using neg by (simp add: pow2_def N_def)
  have "of_int (round_half_even (q * N)) \<le> q * N + 1" by (rule round_half_even_le)
  then have "of_int (round_half_even (q * N)) / N \<le> (q * N + 1) / N"
    using N by (simp add: divide_right_mono)
  also have "\<dots> = q + 1 / N" using N by (simp add: field_simps)
  also have "\<dots> \<le> 2"
  proof -
    have "1 / N \<le> 1" using N by simp
    with assms show ?thesis by simp
  qed
  finally have "of_int (round_half_even (q / pow2 qe)) * pow2 qe \<le> 2" by (simp add: p)
  with pow2_1024_gt have "\<not> pow2 1024 \<le> of_int (round_half_even (q / pow2 qe)) * pow2 qe"
    by simp
  then show ?thesis using False by (simp add: round64_def Let_def qe_def)
qed

lemma int_truediv_fraction:
  assumes "0 \<le> a" and "a \<le> b" and "0 < b"
  shows "\<exists>q. int_truediv a b = Inr q"
proof -
  have "\<bar>of_int a :: rat\<bar> / \<bar>of_int b\<bar> = of_int a / of_int b" using assms by simp
  moreover have "0 \<le> (of_int a :: rat) / of_int b" using assms by simp
  moreover have "(of_int a :: rat) / of_int b \<le> 1" using assms by (simp add: divide_le_eq_1)
  ultimately obtain r where "round64 (\<bar>of_int a\<bar> / \<bar>of_int b\<bar>) = Some r"
    using round64_unit [of "of_int a / of_int b"] by auto
  then show ?thesis using assms by (simp add: int_truediv_def)
qed

text \<open>
  Claim C4. For a report file that exists and parses, in which every \<open>LINE\<close> counter
  below the root carries non-negative integers, \<open>_compute_jacoco_coverage\<close> succeeds:
  \<open>covered\<close> and \<open>missed\<close> are the sums of these attributes over all \<open>LINE\<close> counters of
  the tree, \<open>percent\<close> is \<open>0.0\<close> when \<open>covered + missed\<close> is zero, and otherwise it is
  the float \<open>covered / (covered + missed) * 100.0\<close> (the division does not overflow).
\<close>

theorem overall_coverage_percent:
  assumes "path_exists sys w (path_of sys jacoco_xml_path)"
    and "et_parse sys w (path_of sys jacoco_xml_path) = Inr rt"
    and "\<forall>c \<in> set (line_counters_below rt). counts_nonneg c"
    and "covered = sum_list (map (\<lambda>c. counter_value c ''covered'') (line_counters_below rt))"
    and "missed = sum_list (map (\<lambda>c. counter_value c ''missed'') (line_counters_below rt))"
  shows "\<exists>percent. compute_jacoco_coverage sys w jacoco_xml_path = AggOk percent covered missed
           \<and> (covered + missed = 0 \<longrightarrow> percent = Fin 0)
           \<and> (covered + missed \<noteq> 0 \<longrightarrow>
                (\<exists>q. int_truediv covered (covered + missed) = Inr q
                      \<and> percent = float_mul q (Fin 100)))"
proof -
  have parse: "\<And>c. c \<in> set (findall_below rt ''counter'') \<Longrightarrow> is_line_counter c \<Longrightarrow> counts_parse c"
    using assms(3) by (simp add: line_counters_below_def counts_nonneg_parse)
  have sums: "sum_line_counters (findall_below rt ''counter'') 0 0 = Inr (missed, covered)"
    using sum_line_counters_ok [OF parse, where tm = 0 and tc = 0] assms(4,5) by (simp add: line_counters_below_def)
  have nonneg: "\<And>c. c \<in> set (line_counters_below rt) \<Longrightarrow>
      0 \<le> counter_value c ''covered'' \<and> 0 \<le> counter_value c ''missed''"
    using assms(3) by (auto simp: counts_nonneg_def counter_value_def split: sum.splits)
  have c0: "0 \<le> covered" unfolding assms(4) by (rule sum_list_nonneg) (use nonneg in auto)
  have m0: "0 \<le> missed" unfolding assms(5) by (rule sum_list_nonneg) (use nonneg in auto)
  show ?thesis
  proof (cases "0 < missed + covered")
    case True
    with c0 m0 obtain q where q: "int_truediv covered (missed + covered) = Inr q"
      using int_truediv_fraction [of covered "missed + covered"] by auto
    have "compute_jacoco_coverage sys w jacoco_xml_path
            = AggOk (float_mul q (Fin 100)) covered missed"
      using assms(1,2) sums True q
      by (simp add: compute_jacoco_coverage_def coverage_of_root_def Let_def)
    with True q show ?thesis by (simp add: add.commute)
  next
    case False
    with c0 m0 have z: "covered + missed = 0" by simp
    have "compute_jacoco_coverage sys w jacoco_xml_path = AggOk (Fin 0) covered missed"
      using assms(1,2) sums False
      by (simp add: compute_jacoco_coverage_def coverage_of_root_def Let_def)
    with z show ?thesis by simp
  qed
qed

lemma demo_totals_line_counters:
  "line_counters_below demo_totals_report = [line_counter ''5'' ''45'', line_counter ''10'' ''40'']"
  by code_simp

lemma demo_counts:
  "counts_nonneg (line_counter ''5'' ''45'')" "counts_nonneg (line_counter ''10'' ''40'')"
  "counter_value (line_counter ''5'' ''45'') ''covered'' = 45"
  "counter_value (line_counter ''10'' ''40'') ''covered'' = 40"
  "counter_value (line_counter ''5'' ''45'') ''missed'' = 5"
  "counter_value (line_counter ''10'' ''40'') ''missed'' = 10"
  by code_simp+

lemma demo_percent:
  "int_truediv 85 100 = Inr (Fin (7656119366529843 / 9007199254740992))"
  "float_mul (Fin (7656119366529843 / 9007199254740992)) (Fin 100) = Fin 85"
  by code_simp+

lemma demo_exists: "path_exists demo_sys 0 (path_of demo_sys ''totals.xml'')"
  by code_simp

lemma demo_parse_totals: "et_parse demo_sys 0 (path_of demo_sys ''totals.xml'') = Inr demo_totals_report"
  by code_simp

text \<open>A report with the counters 5/45 and 10/40: 85 covered, 15 missed, 85.0 percent.\<close>

theorem overall_coverage_percent_witness:
  "compute_jacoco_coverage demo_sys 0 ''totals.xml'' = AggOk (Fin 85) 85 15"
proof -
  have "\<forall>c \<in> set (line_counters_below demo_totals_report). counts_nonneg c"
    by (simp add: demo_totals_line_counters demo_counts)
  from overall_coverage_percent [OF demo_exists demo_parse_totals this, of 85 15]
  show ?thesis by (auto simp: demo_totals_line_counters demo_counts demo_percent)
qed


subsection \<open>Per-class gap analysis\<close>

lemma class_counters_ok:
  "list_all counts_parse (filter is_line_counter cs) \<Longrightarrow>
   class_counters pn cn cs acc =
     Inr (acc @ map (\<lambda>counter. \<lparr> unit_package = pn, unit_class = cn,
                      unit_missed = counter_value counter ''missed'',
                      unit_covered = counter_value counter ''covered'' \<rparr>)
            (filter (\<lambda>counter. counter_value counter ''missed'' > 0) (filter is_line_counter cs)))"
proof (induction cs arbitrary: acc)
  case Nil
  then show ?case by simp
next
  case (Cons c cs)
  show ?case
  proof (cases "is_line_counter c")
    case True
    with Cons.prems have "counts_parse c" and rest: "list_all counts_parse (filter is_line_counter cs)"
      by simp_all
    then obtain m cv where m: "int_of_attr (get_attr c ''missed'') = Inr m"
      and cv: "int_of_attr (get_attr c ''covered'') = Inr cv"
      by (auto simp: counts_parse_def split: sum.splits)
    from True have ty: "get_attr c ''type'' = Some ''LINE''" by (simp add: is_line_counter_def)
    show ?thesis
      using Cons.IH [OF rest] True by (simp add: ty m cv counter_value_def)
  next
    case False
    then have ty: "get_attr c ''type'' \<noteq> Some ''LINE''" by (simp add: is_line_counter_def)
    from False Cons.prems have rest: "list_all counts_parse (filter is_line_counter cs)" by simp
    show ?thesis using Cons.IH [OF rest] False by (simp add: ty)
  qed
qed

lemma class_counters_fail:
  "\<not> list_all counts_parse (filter is_line_counter cs) \<Longrightarrow> \<exists>e. class_counters pn cn cs acc = Inl e"
proof (induction cs arbitrary: acc)
  case Nil
  then show ?case by simp
next
  case (Cons c cs)
  show ?case
  proof (cases "is_line_counter c")
    case True
    then have ty: "get_attr c ''type'' = Some ''LINE''" by (simp add: is_line_counter_def)
    show ?thesis
    proof (cases "counts_parse c")
      case False
      then show ?thesis by (auto simp: ty counts_parse_def split: sum.splits)
    next
      case cp: True
      with True Cons.prems have "\<not> list_all counts_parse (filter is_line_counter cs)" by simp
      from Cons.IH [OF this] show ?thesis by (auto simp: ty split: sum.splits)
    qed
  next
    case False
    then have ty: "get_attr c ''type'' \<noteq> Some ''LINE''" by (simp add: is_line_counter_def)
    from False Cons.prems have "\<not> list_all counts_parse (filter is_line_counter cs)" by simp
    from Cons.IH [OF this] show ?thesis by (simp add: ty)
  qed
qed

lemma package_classes_ok:
  "list_all (\<lambda>cls. list_all counts_parse (class_line_counters cls)) clss \<Longrightarrow>
   package_classes (get_attr pkg ''name'') clss acc = Inr (acc @ concat (map (class_units pkg) clss))"
proof (induction clss arbitrary: acc)
  case Nil
  then show ?case by simp
next
  case (Cons cls clss)
  then have h: "list_all counts_parse (filter is_line_counter (findall_child cls ''counter''))"
    and rest: "list_all (\<lambda>cls. list_all counts_parse (class_line_counters cls)) clss"
    by (simp_all add: class_line_counters_def)
  show ?case
    using class_counters_ok [OF h] Cons.IH [OF rest]
    by (simp add: class_units_def class_line_counters_def)
qed

lemma package_classes_fail:
  "\<not> list_all (\<lambda>cls. list_all counts_parse (class_line_counters cls)) clss \<Longrightarrow>
   \<exists>e. package_classes pn clss acc = Inl e"
proof (induction clss arbitrary: acc)
  case Nil
  then show ?case by simp
next
  case (Cons cls clss)
  show ?case
  proof (cases "list_all counts_parse (class_line_counters cls)")
    case False
    then obtain e where "class_counters pn (get_attr cls ''name'') (findall_child cls ''counter'') acc = Inl e"
      using class_counters_fail [where cs = "findall_child cls ''counter''" and pn = pn
          and cn = "get_attr cls ''name''" and acc = acc]
      by (auto simp: class_line_counters_def)
    then show ?thesis by simp
  next
    case True
    with Cons.prems have "\<not> list_all (\<lambda>cls. list_all counts_parse (class_line_counters cls)) clss"
      by simp
    from Cons.IH [OF this] show ?thesis by (auto split: sum.splits)
  qed
qed

lemma report_packages_ok:
  "list_all (\<lambda>pkg. list_all (\<lambda>cls. list_all counts_parse (class_line_counters cls))
                      (findall_child pkg ''class'')) pkgs \<Longrightarrow>
   report_packages pkgs acc = Inr (acc @ concat (map package_units pkgs))"
proof (induction pkgs arbitrary: acc)
  case Nil
  then show ?case by simp
next
  case (Cons pkg pkgs)
  then have h: "list_all (\<lambda>cls. list_all counts_parse (class_line_counters cls)) (findall_child pkg ''class'')"
    and rest: "list_all (\<lambda>pkg. list_all (\<lambda>cls. list_all counts_parse (class_line_counters cls))
                      (findall_child pkg ''class'')) pkgs"
    by simp_all
  show ?case
    using package_classes_ok [OF h] Cons.IH [OF rest] by (simp add: package_units_def)
qed

lemma report_packages_fail:
  "\<not> list_all (\<lambda>pkg. list_all (\<lambda>cls. list_all counts_parse (class_line_counters cls))
                      (findall_child pkg ''class'')) pkgs \<Longrightarrow>
   \<exists>e. report_packages pkgs acc = Inl e"
proof (induction pkgs arbitrary: acc)
  case Nil
  then show ?case by simp
next
  case (Cons pkg pkgs)
  show ?case
  proof (cases "list_all (\<lambda>cls. list_all counts_parse (class_line_counters cls)) (findall_child pkg ''class'')")
    case False
    from package_classes_fail [OF this, where pn = "get_attr pkg ''name''" and acc = acc]
    show ?thesis by auto
  next
    case True
    with Cons.prems have "\<not> list_all (\<lambda>pkg. list_all (\<lambda>cls. list_all counts_parse (class_line_counters cls))
                      (findall_child pkg ''class'')) pkgs" by simp
    from Cons.IH [OF this] show ?thesis by (auto split: sum.splits)
  qed
qed

lemma demo_gap_parse: "class_counters_parse demo_gap_report"
  by code_simp

lemma demo_gap_units:
  "gap_units demo_gap_report =
     [\<lparr> unit_package = Some ''com/example'', unit_class = Some ''com/example/Util'',
        unit_missed = 3, unit_covered = 7 \<rparr>]"
  by code_simp

lemma demo_str3: "str_int 3 = ''3''"
  by code_simp

lemma demo_gap_file:
  "locate_report demo_sys 0 ''codebase'' (Some ''gaps.xml'') = Some ''gaps.xml''"
  "et_parse demo_sys 0 ''gaps.xml'' = Inr demo_gap_report"
  by code_simp+

lemma demo_broken_file:
  "locate_report demo_sys 0 ''codebase'' (Some ''broken.xml'') = Some ''broken.xml''"
  "et_parse demo_sys 0 ''broken.xml'' = Inr demo_broken_report"
  "\<not> class_counters_parse demo_broken_report"
  by code_simp+

text \<open>
  Claim C5. When the report that \<open>analyze_coverage\<close> finds parses and every \<open>LINE\<close>
  counter of every class carries integers, the result lists, in the order of the
  traversal (packages, their classes, the counters of a class), one unit for each class
  \<open>LINE\<close> counter with \<open>missed > 0\<close>, and one recommendation per unit, in the same
  order, of the form \<open>"Increase tests for {package}.{class} (missed lines: {missed})"\<close>.
  The result is a function of the report found, so running the analysis again on the
  same report gives the same lists.
\<close>

theorem gap_analysis_units:
  assumes "locate_report sys w project_dir jacoco_xml = Some found"
    and "et_parse sys w found = Inr rt"
    and "class_counters_parse rt"
  shows "analyze_coverage sys w project_dir jacoco_xml
           = Inr (Analysis found (gap_units rt)
               (map (\<lambda>item. ''Increase tests for '' @ str_of_attr (unit_package item) @ ''.''
                       @ str_of_attr (unit_class item) @ '' (missed lines: ''
                       @ str_int (unit_missed item) @ '')'')
                  (gap_units rt)))"
  using assms report_packages_ok [of "findall_below rt ''package''" "[]"]
  by (simp add: analyze_coverage_def class_counters_parse_def gap_units_def
      recommendation_def [abs_def])

text \<open>
  The example of the claim: two classes, one with \<open>missed = 0\<close> and one with
  \<open>missed = 3\<close>, give exactly one unit, with 3 missed lines.
\<close>

theorem gap_analysis_units_witness:
  "analyze_coverage demo_sys 0 ''codebase'' (Some ''gaps.xml'')
     = Inr (Analysis ''gaps.xml''
         [\<lparr> unit_package = Some ''com/example'', unit_class = Some ''com/example/Util'',
            unit_missed = 3, unit_covered = 7 \<rparr>]
         [''Increase tests for com/example.com/example/Util (missed lines: 3)''])"
  using gap_analysis_units [OF demo_gap_file demo_gap_parse]
  by (simp add: demo_gap_units str_of_attr_def demo_str3)

text \<open>
  Claim C6, as stated: a class entry whose counter lacks an attribute is skipped and the
  analysis completes with the other classes. It does not: on a report whose first class
  has a \<open>LINE\<close> counter without \<open>missed\<close> and whose second class has 3 missed lines, the
  \<open>int(None)\<close> raises \<open>TypeError\<close>, nothing catches it, and no unit is returned.
\<close>

theorem batch_skips_malformed_class_counterexample:
  "analyze_coverage demo_sys 0 ''codebase'' (Some ''broken.xml'') = Inl TypeError"
  by code_simp

text \<open>
  Claim C6, amended. For every report found whose top level decodes, the gap analysis
  is all or nothing: when every \<open>LINE\<close> counter of every class carries integer \<open>missed\<close>
  and \<open>covered\<close> attributes it completes with the units of all classes; when one of them
  has a missing or non-integer attribute no entry is skipped and no analysis result, not
  even a partial one, is returned.
\<close>

theorem gap_analysis_all_or_nothing:
  assumes "locate_report sys w project_dir jacoco_xml = Some found"
    and "et_parse sys w found = Inr rt"
  shows "(class_counters_parse rt \<longrightarrow>
            analyze_coverage sys w project_dir jacoco_xml
              = Inr (Analysis found (gap_units rt) (map recommendation (gap_units rt))))
       \<and> (\<not> class_counters_parse rt \<longrightarrow>
            (\<forall>file units recs.
               analyze_coverage sys w project_dir jacoco_xml \<noteq> Inr (Analysis file units recs)))"
proof -
  have "class_counters_parse rt \<Longrightarrow> ?thesis"
    using assms report_packages_ok [of "findall_below rt ''package''" "[]"]
    by (simp add: analyze_coverage_def class_counters_parse_def gap_units_def)
  moreover have "\<not> class_counters_parse rt \<Longrightarrow> ?thesis"
    using assms report_packages_fail [of "findall_below rt ''package''" "[]"]
    by (auto simp: analyze_coverage_def class_counters_parse_def)
  ultimately show ?thesis by blast
qed

text \<open>Both cases on the example system: the well-formed report and the broken one.\<close>

theorem gap_analysis_all_or_nothing_witness:
  "analyze_coverage demo_sys 0 ''codebase'' (Some ''gaps.xml'')
     = Inr (Analysis ''gaps.xml''
         [\<lparr> unit_package = Some ''com/example'', unit_class = Some ''com/example/Util'',
            unit_missed = 3, unit_covered = 7 \<rparr>]
         [''Increase tests for com/example.com/example/Util (missed lines: 3)''])
   \<and> (\<forall>file units recs.
         analyze_coverage demo_sys 0 ''codebase'' (Some ''broken.xml'')
           \<noteq> Inr (Analysis file units recs))"
  using gap_analysis_all_or_nothing [OF demo_gap_file]
    gap_analysis_all_or_nothing [OF demo_broken_file(1,2)]
    demo_gap_parse demo_broken_file(3)
  by (simp add: demo_gap_units recommendation_def str_of_attr_def demo_str3)

subsection \<open>Staging Filter\<close>

lemma demo_add:
  "git_add_all (logged demo_sys) ''.'' None (1, [])
     = (Staged True [''src/main/java/App.java''] (Some []) (Some []),
        (4, [[''git'', ''status'', ''--porcelain''],
             [''git'', ''add'', ''--'', ''src/main/java/App.java''],
             [''git'', ''diff'', ''--name-only'', ''--cached'']]))"
  by code_simp

lemma demo_all_excluded:
  "\<forall>path \<in> set (map (drop 3) (nonblank_lines (stdout (fst
       (run_cmd demo_sys [''git'', ''status'', ''--porcelain''] (abspath demo_sys ''.'') 0))))).
     \<exists>pat \<in> set (case None of None \<Rightarrow> default_exclude_patterns | Some ps \<Rightarrow> ps).
       fnmatch demo_sys path pat \<or> fnmatch demo_sys (os_path_join (abspath demo_sys ''.'') path) pat"
  by code_simp

text \<open>
  Claim C7. Let \<open>cmds\<close> be the commands \<open>git_add_all\<close> runs, \<open>pats\<close> the exclusion
  patterns in force (the defaults when none are given) and \<open>changed\<close> the paths of the
  status query's non-blank lines. Every path passed to a \<open>git add\<close> among \<open>cmds\<close>
  matches no pattern, neither as reported nor joined to the repository root. And when
  every changed path matches some pattern in one of the two forms (in particular when
  nothing changed), the result is "No files to stage after filtering." and the status
  query is the only command run: the staging operation is not invoked.
\<close>

theorem staging_filter_excludes:
  assumes "git_add_all (logged sys) repo_dir exclude_patterns (w, []) = (res, (w', cmds))"
    and "pats = (case exclude_patterns of None \<Rightarrow> default_exclude_patterns | Some ps \<Rightarrow> ps)"
    and "changed = map (drop 3) (nonblank_lines (stdout (fst
           (run_cmd sys [''git'', ''status'', ''--porcelain''] (abspath sys repo_dir) w))))"
  shows "(\<forall>argv \<in> set cmds. take 2 argv = [''git'', ''add''] \<longrightarrow>
            (\<forall>path \<in> set (drop 3 argv). \<forall>pat \<in> set pats.
               \<not> fnmatch sys path pat
               \<and> \<not> fnmatch sys (os_path_join (abspath sys repo_dir) path) pat))
       \<and> ((\<forall>path \<in> set changed. \<exists>pat \<in> set pats.
              fnmatch sys path pat \<or> fnmatch sys (os_path_join (abspath sys repo_dir) path) pat)
            \<longrightarrow> res = Nothing_to_stage \<and> cmds = [[''git'', ''status'', ''--porcelain'']])"
proof -
  let ?repo = "abspath sys repo_dir"
  let ?files = "filter (\<lambda>path. \<not> skip_path sys ?repo pats path) changed"
  have keep: "\<forall>path \<in> set ?files. \<forall>pat \<in> set pats.
      \<not> fnmatch sys path pat \<and> \<not> fnmatch sys (os_path_join ?repo path) pat"
    by (auto simp: skip_path_def list_ex_iff)
  have none: "(\<forall>path \<in> set changed. \<exists>pat \<in> set pats.
      fnmatch sys path pat \<or> fnmatch sys (os_path_join ?repo path) pat) \<Longrightarrow> ?files = []"
    by (auto simp: skip_path_def list_ex_iff filter_empty_conv)
  show ?thesis
  proof (cases "?files = []")
    case True
    with assms have "res = Nothing_to_stage" "cmds = [[''git'', ''status'', ''--porcelain'']]"
      by (simp_all add: git_add_all_def Let_def)
    then show ?thesis by simp
  next
    case False
    with assms have "cmds = [[''git'', ''status'', ''--porcelain''],
        [''git'', ''add'', ''--''] @ ?files, [''git'', ''diff'', ''--name-only'', ''--cached'']]"
      by (simp add: git_add_all_def Let_def)
    with keep none False show ?thesis by auto
  qed
qed

text \<open>
  On the example system with the default patterns: in state \<open>1\<close> the status query
  reports a source file, a class file under \<open>target/\<close> and a log file; only the source
  file is staged, and it matches no pattern. In state \<open>0\<close> only the class file is
  reported, and nothing but the status query is run.
\<close>

theorem staging_filter_excludes_witness:
  "list_all (\<lambda>pat. \<not> fnmatch demo_sys ''src/main/java/App.java'' pat
                  \<and> \<not> fnmatch demo_sys
                        (os_path_join (abspath demo_sys ''.'') ''src/main/java/App.java'') pat)
     default_exclude_patterns
   \<and> fst (git_add_all (logged demo_sys) ''.'' None (0, [])) = Nothing_to_stage
   \<and> snd (snd (git_add_all (logged demo_sys) ''.'' None (0, [])))
       = [[''git'', ''status'', ''--porcelain'']]"
proof -
  have a: "\<forall>pat \<in> set default_exclude_patterns.
      \<not> fnmatch demo_sys ''src/main/java/App.java'' pat
      \<and> \<not> fnmatch demo_sys (os_path_join (abspath demo_sys ''.'') ''src/main/java/App.java'') pat"
    using staging_filter_excludes [OF demo_add refl refl, THEN conjunct1] by simp
  have e: "git_add_all (logged demo_sys) ''.'' None (0, [])
      = (fst (git_add_all (logged demo_sys) ''.'' None (0, [])),
         (fst (snd (git_add_all (logged demo_sys) ''.'' None (0, []))),
          snd (snd (git_add_all (logged demo_sys) ''.'' None (0, [])))))"
    by simp
  note b = staging_filter_excludes [OF e refl refl, THEN conjunct2, THEN mp, OF demo_all_excluded]
  from a b show ?thesis by (simp add: list_all_iff)
qed

subsection \<open>Push Negotiator\<close>

lemma demo_rev_parse:
  "run_cmd demo_sys [''git'', ''rev-parse'', ''--abbrev-ref'', ''HEAD''] (abspath demo_sys ''.'') 0
     = (\<lparr>returncode = Some 0, stdout = Some (''main'' @ [CHR 0x0A]), stderr = Some []\<rparr>, 1)"
  "run_cmd demo_sys [''git'', ''rev-parse'', ''--abbrev-ref'', ''HEAD''] (abspath demo_sys ''.'') 10
     = (\<lparr>returncode = Some 0, stdout = Some (''main'' @ [CHR 0x0A]), stderr = Some []\<rparr>, 11)"
  by code_simp+

lemma demo_branch:
  "''main'' = strip (case stdout \<lparr>returncode = Some 0, stdout = Some (''main'' @ [CHR 0x0A]),
                       stderr = Some []\<rparr> of None \<Rightarrow> [] | Some s \<Rightarrow> s)"
  by code_simp

lemma demo_push:
  "run_cmd demo_sys [''git'', ''push'', ''origin'', ''main''] (abspath demo_sys ''.'') 1
     = (\<lparr>returncode = Some 1, stdout = Some [], stderr = Some []\<rparr>, 2)"
  "run_cmd demo_sys [''git'', ''push'', ''-u'', ''origin'', ''main''] (abspath demo_sys ''.'') 2
     = (\<lparr>returncode = Some 0, stdout = Some [], stderr = Some []\<rparr>, 3)"
  "run_cmd demo_sys [''git'', ''push'', ''origin'', ''main''] (abspath demo_sys ''.'') 11
     = (\<lparr>returncode = Some 0, stdout = Some [], stderr = Some []\<rparr>, 12)"
  "run_cmd demo_sys [''git'', ''push'', ''-u'', ''origin'', ''main''] (abspath demo_sys ''.'') 12
     = (\<lparr>returncode = Some 0, stdout = Some [], stderr = Some []\<rparr>, 13)"
  by code_simp+

text \<open>
  Claim C8. When the branch name is determined (the stripped output of
  \<open>git rev-parse --abbrev-ref HEAD\<close> is not empty), \<open>git_push\<close> runs the plain push. If
  it returns \<open>0\<close>, no further command is run and the result is a success with the plain
  push's output. Otherwise exactly one more command is run, the push with \<open>-u\<close>, and
  the result is that of this last attempt: \<open>ok\<close> exactly when it returned \<open>0\<close>, with its
  output. (\<open>push_up_res\<close> is what the push with \<open>-u\<close> returns if it is run.)
\<close>

theorem two_attempt_push:
  assumes "run_cmd sys [''git'', ''rev-parse'', ''--abbrev-ref'', ''HEAD''] (abspath sys repo_dir) w
             = (br, w1)"
    and "branch = strip (case stdout br of None \<Rightarrow> [] | Some s \<Rightarrow> s)"
    and "branch \<noteq> []"
    and "run_cmd sys [''git'', ''push'', remote, branch] (abspath sys repo_dir) w1 = (push_res, w2)"
    and "run_cmd sys [''git'', ''push'', ''-u'', remote, branch] (abspath sys repo_dir) w2
           = (push_up_res, w3)"
  shows "(returncode push_res = Some 0 \<longrightarrow>
            git_push (logged sys) remote repo_dir (w, [])
              = (Pushed True (stdout push_res) (stderr push_res) branch,
                 (w2, [[''git'', ''rev-parse'', ''--abbrev-ref'', ''HEAD''],
                       [''git'', ''push'', remote, branch]])))
       \<and> (returncode push_res \<noteq> Some 0 \<longrightarrow>
            git_push (logged sys) remote repo_dir (w, [])
              = (Pushed (returncode push_up_res = Some 0) (stdout push_up_res) (stderr push_up_res)
                   branch,
                 (w3, [[''git'', ''rev-parse'', ''--abbrev-ref'', ''HEAD''],
                       [''git'', ''push'', remote, branch],
                       [''git'', ''push'', ''-u'', remote, branch]])))"
  using assms by (simp add: git_push_def Let_def)

text \<open>
  On the example system: from state \<open>0\<close> the plain push fails and the push with \<open>-u\<close>
  succeeds (three commands); from state \<open>10\<close> the plain push succeeds (two commands).
\<close>

theorem two_attempt_push_witness:
  "git_push (logged demo_sys) ''origin'' ''.'' (0, [])
     = (Pushed True (Some []) (Some []) ''main'',
        (3, [[''git'', ''rev-parse'', ''--abbrev-ref'', ''HEAD''],
             [''git'', ''push'', ''origin'', ''main''],
             [''git'', ''push'', ''-u'', ''origin'', ''main'']]))
   \<and> git_push (logged demo_sys) ''origin'' ''.'' (10, [])
     = (Pushed True (Some []) (Some []) ''main'',
        (12, [[''git'', ''rev-parse'', ''--abbrev-ref'', ''HEAD''],
              [''git'', ''push'', ''origin'', ''main'']]))"
  using two_attempt_push [OF demo_rev_parse(1) demo_branch _ demo_push(1) demo_push(2),
      THEN conjunct2]
    two_attempt_push [OF demo_rev_parse(2) demo_branch _ demo_push(3) demo_push(4),
      THEN conjunct1]
  by simp

subsection \<open>Skeleton Generator\<close>

lemma os_mkdir_keeps: "os_mkdir d fs = Inr fs' \<Longrightarrow> fs p = Some n \<Longrightarrow> fs' p = Some n"
  by (auto simp: os_mkdir_def fs_exists_def split: if_splits option.splits node.splits)

lemma os_mkdir_dir: "os_mkdir d fs = Inr fs' \<Longrightarrow> fs' d = Some Dir"
  by (auto simp: os_mkdir_def split: if_splits option.splits node.splits)

lemma mkdir_exist_ok_keeps: "mkdir_exist_ok d fs = Inr fs' \<Longrightarrow> fs p = Some n \<Longrightarrow> fs' p = Some n"
  by (auto simp: mkdir_exist_ok_def split: sum.splits if_splits dest: os_mkdir_keeps)

lemma mkdir_exist_ok_dir: "mkdir_exist_ok d fs = Inr fs' \<Longrightarrow> fs_is_dir fs' d"
  by (auto simp: mkdir_exist_ok_def fs_is_dir_def split: sum.splits if_splits dest: os_mkdir_dir)

lemma mkdir_parents_cases:
  assumes "mkdir_parents d fs = Inr fs'"
  shows "os_mkdir d fs = Inr fs'
       \<or> (os_mkdir d fs = Inl FileNotFoundError \<and> d \<noteq> []
            \<and> (\<exists>fs1. mkdir_parents (butlast d) fs = Inr fs1 \<and> mkdir_exist_ok d fs1 = Inr fs'))
       \<or> (fs_is_dir fs d \<and> fs' = fs)"
  using assms
  by (subst (asm) mkdir_parents.simps) (auto split: sum.splits if_splits)

lemma mkdir_parents_keeps: "mkdir_parents d fs = Inr fs' \<Longrightarrow> fs p = Some n \<Longrightarrow> fs' p = Some n"
proof (induction d fs arbitrary: fs' rule: mkdir_parents.induct)
  case (1 d fs)
  from mkdir_parents_cases [OF "1.prems"(1)]
  consider "os_mkdir d fs = Inr fs'"
    | fs1 where "os_mkdir d fs = Inl FileNotFoundError" "d \<noteq> []"
        "mkdir_parents (butlast d) fs = Inr fs1" "mkdir_exist_ok d fs1 = Inr fs'"
    | "fs' = fs"
    by blast
  then show ?case
  proof cases
    case 1
    then show ?thesis using "1.prems"(2) by (rule os_mkdir_keeps)
  next
    case 2
    have "fs1 p = Some n" using "1.IH" [OF 2(1) _ 2(2) 2(3) "1.prems"(2)] by simp
    with 2(4) show ?thesis by (rule mkdir_exist_ok_keeps)
  next
    case 3
    then show ?thesis using "1.prems"(2) by simp
  qed
qed

lemma mkdir_parents_dir: "mkdir_parents d fs = Inr fs' \<Longrightarrow> fs_is_dir fs' d"
  using mkdir_parents_cases [of d fs fs']
  by (auto simp: fs_is_dir_def dest: os_mkdir_dir mkdir_exist_ok_dir)

lemma mkdir_parents_idle: "fs_is_dir fs d \<Longrightarrow> mkdir_parents d fs = Inr fs"
  by (subst mkdir_parents.simps) (auto simp add: os_mkdir_def fs_exists_def fs_is_dir_def)

lemma write_text_keeps:
  "write_text p content fs = Inr fs' \<Longrightarrow> \<not> fs_exists fs p \<Longrightarrow> fs q = Some n \<Longrightarrow> fs' q = Some n"
  by (auto simp: write_text_def fs_exists_def split: if_splits option.splits node.splits)

lemma write_text_exists: "write_text p content fs = Inr fs' \<Longrightarrow> fs_exists fs' p"
  by (auto simp: write_text_def fs_exists_def split: if_splits option.splits node.splits)

lemma keeps_is_dir: "(\<And>p n. fs p = Some n \<Longrightarrow> fs' p = Some n) \<Longrightarrow> fs_is_dir fs d \<Longrightarrow> fs_is_dir fs' d"
  by (auto simp: fs_is_dir_def)

lemma keeps_exists: "(\<And>p n. fs p = Some n \<Longrightarrow> fs' p = Some n) \<Longrightarrow> fs_exists fs d \<Longrightarrow> fs_exists fs' d"
  by (auto simp: fs_exists_def)

lemma process_file_keeps:
  assumes "process_file sc test_root f fs = (r, fs')" and "fs p = Some n"
  shows "fs' p = Some n"
  using assms
  by (auto simp: process_file_def Let_def split: sum.splits if_splits
      dest: mkdir_parents_keeps write_text_keeps)

lemma process_file_settles:
  assumes "process_file sc test_root f fs = (Inr b, fs')"
  shows "settled sc test_root fs' f"
proof (cases "read_text f")
  case (Inl e)
  with assms show ?thesis by (simp add: process_file_def)
next
  case (Inr src_text)
  define pk where "pk = (case package_search sc src_text of Some g \<Rightarrow> g | None \<Rightarrow> [])"
  define d where "d = package_dir test_root pk"
  define t where "t = d @ [stem f @ ''Test'' @ ''.java'']"
  show ?thesis
  proof (cases "method_findall sc src_text = []")
    case True
    then show ?thesis by (simp add: settled_def Inr)
  next
    case False
    from assms Inr False obtain fs1 where m: "mkdir_parents d fs = Inr fs1"
      by (auto simp: process_file_def Let_def d_def pk_def split: sum.splits)
    have dir1: "fs_is_dir fs1 d" using m by (rule mkdir_parents_dir)
    show ?thesis
    proof (cases "fs_exists fs1 t")
      case True
      with assms Inr False m have "fs' = fs1"
        by (simp add: process_file_def Let_def d_def pk_def t_def)
      with True dir1 show ?thesis by (simp add: settled_def Inr Let_def d_def pk_def t_def)
    next
      case nex: False
      with assms Inr False m obtain content where w: "write_text t content fs1 = Inr fs'"
        by (auto simp: process_file_def Let_def d_def pk_def t_def split: sum.splits)
      have "fs_exists fs' t" using w by (rule write_text_exists)
      moreover have "fs_is_dir fs' d"
        using dir1 write_text_keeps [OF w nex] by (auto simp: fs_is_dir_def)
      ultimately show ?thesis by (simp add: settled_def Inr Let_def d_def pk_def t_def)
    qed
  qed
qed

lemma process_file_idle:
  assumes "settled sc test_root fs f"
  shows "process_file sc test_root f fs = (Inr False, fs)"
  using assms
  by (auto simp: settled_def process_file_def Let_def mkdir_parents_idle split: sum.splits)

lemma settled_keeps:
  assumes "settled sc test_root fs f" and "\<And>p n. fs p = Some n \<Longrightarrow> fs' p = Some n"
  shows "settled sc test_root fs' f"
  using assms(1) keeps_is_dir [OF assms(2)] keeps_exists [OF assms(2)]
  by (auto simp: settled_def Let_def split: sum.splits)

lemma generate_loop_keeps:
  "generate_loop sc test_root files created fs = (r, fs') \<Longrightarrow> fs p = Some n \<Longrightarrow> fs' p = Some n"
proof (induction files arbitrary: created fs)
  case Nil
  then show ?case by simp
next
  case (Cons f files)
  obtain r1 fs1 where p: "process_file sc test_root f fs = (r1, fs1)" by (cases "process_file sc test_root f fs")
  have k: "fs1 p = Some n" using p Cons.prems(2) by (rule process_file_keeps)
  show ?case
  proof (cases r1)
    case (Inl e)
    with Cons.prems(1) p have "fs' = fs1" by simp
    with k show ?thesis by simp
  next
    case (Inr wrote)
    with Cons.prems(1) p
    have "generate_loop sc test_root files (if wrote then created + 1 else created) fs1 = (r, fs')"
      by simp
    from Cons.IH [OF this k] show ?thesis .
  qed
qed

lemma generate_loop_settles:
  "generate_loop sc test_root files created fs = (Inr k, fs') \<Longrightarrow>
   \<forall>f \<in> set files. settled sc test_root fs' f"
proof (induction files arbitrary: created fs)
  case Nil
  then show ?case by simp
next
  case (Cons f files)
  obtain r1 fs1 where p: "process_file sc test_root f fs = (r1, fs1)" by (cases "process_file sc test_root f fs")
  show ?case
  proof (cases r1)
    case (Inl e)
    with Cons.prems p show ?thesis by simp
  next
    case (Inr wrote)
    with Cons.prems p
    have g: "generate_loop sc test_root files (if wrote then created + 1 else created) fs1 = (Inr k, fs')"
      by simp
    have "settled sc test_root fs1 f" using p Inr process_file_settles by blast
    then have "settled sc test_root fs' f"
      by (rule settled_keeps) (use g generate_loop_keeps in blast)
    with Cons.IH [OF g] show ?thesis by simp
  qed
qed

lemma generate_loop_idle:
  "\<forall>f \<in> set files. settled sc test_root fs f \<Longrightarrow>
   generate_loop sc test_root files created fs = (Inr created, fs)"
  by (induction files arbitrary: created) (simp_all add: process_file_idle)

text \<open>
  Claim C9. \<open>generate_tests\<close> never overwrites: whatever exists before the run, file or
  directory, exists unchanged after it (also when the run ends in an exception), so no
  test file that is already there is written to. And it is idempotent: if a run
  returns \<open>created_tests = k\<close>, a second run on the same source tree, started in the
  file system the first run left, returns \<open>created_tests = 0\<close> and changes nothing.
\<close>

theorem generate_tests_idempotent:
  "(\<forall>p n. fs p = Some n \<longrightarrow> snd (generate_tests sc tree test_root fs) p = Some n)
   \<and> (fst (generate_tests sc tree test_root fs) = Inr (Created k) \<longrightarrow>
        generate_tests sc tree test_root (snd (generate_tests sc tree test_root fs))
          = (Inr (Created 0), snd (generate_tests sc tree test_root fs)))"
proof (cases "src_root_exists tree")
  case False
  then show ?thesis by (simp add: generate_tests_def)
next
  case True
  obtain r fs' where g: "generate_loop sc test_root (java_files tree) 0 fs = (r, fs')"
    by (cases "generate_loop sc test_root (java_files tree) 0 fs")
  have s: "snd (generate_tests sc tree test_root fs) = fs'"
    using True g by (simp add: generate_tests_def split: sum.splits)
  have keep: "\<forall>p n. fs p = Some n \<longrightarrow> fs' p = Some n"
    using g generate_loop_keeps by blast
  have again: "generate_tests sc tree test_root fs' = (Inr (Created 0), fs')"
    if "fst (generate_tests sc tree test_root fs) = Inr (Created k)"
  proof -
    from that True g have "r = Inr k" by (auto simp: generate_tests_def split: sum.splits)
    with g have "\<forall>f \<in> set (java_files tree). settled sc test_root fs' f"
      using generate_loop_settles by blast
    then have "generate_loop sc test_root (java_files tree) 0 fs' = (Inr 0, fs')"
      by (rule generate_loop_idle)
    with True show ?thesis by (simp add: generate_tests_def)
  qed
  from keep again show ?thesis by (simp add: s)
qed

lemma demo_first_run:
  "fst (generate_tests demo_scanner demo_tree demo_test_root Map.empty) = Inr (Created 1)"
  by code_simp

lemma demo_edited:
  "demo_edited_fs [''codebase'', ''src'', ''test'', ''java'', ''com'', ''example'', ''AppTest.java'']
     = Some (File ''edited by hand'')"
  by code_simp

text \<open>
  On the example tree (one class with a public method, one without): the first run in
  an empty file system creates one skeleton, the second none; and a test file edited
  by hand keeps its text.
\<close>

theorem generate_tests_idempotent_witness:
  "fst (generate_tests demo_scanner demo_tree demo_test_root Map.empty) = Inr (Created 1)
   \<and> fst (generate_tests demo_scanner demo_tree demo_test_root
            (snd (generate_tests demo_scanner demo_tree demo_test_root Map.empty)))
       = Inr (Created 0)
   \<and> snd (generate_tests demo_scanner demo_tree demo_test_root demo_edited_fs)
       [''codebase'', ''src'', ''test'', ''java'', ''com'', ''example'', ''AppTest.java'']
       = Some (File ''edited by hand'')"
  using generate_tests_idempotent [of Map.empty demo_scanner demo_tree demo_test_root 1]
    generate_tests_idempotent [of demo_edited_fs demo_scanner demo_tree demo_test_root 0]
    demo_first_run demo_edited
  by simp

end
